theory Spec2Isabelle
  imports Complex_Main "HOL-Library.Word"
begin

section \<open>The persistent store\<close>

text \<open>
  The program keeps all of its state in one SQLite database (\<open>DatabaseManager\<close>) and in
  one in-memory dictionary (\<open>ContainerEngine.network\<close>). A table is modelled as the list of
  its rows in insertion (rowid) order; a \<open>DELETE\<close> filters the list, an \<open>UPDATE\<close> maps
  over it, an \<open>INSERT\<close> appends, and \<open>INSERT OR REPLACE\<close> deletes the row with the same
  key and appends the new one. \<open>time.time()\<close> is a parameter of every operation that
  reads the clock, and the outcomes of \<open>random\<close> are parameters as well.

  The operations are modelled for an open connection on which both
  \<open>DatabaseManager._init_database\<close> and \<open>ContainerEngine._init_container_tables\<close> have run,
  so that every table exists and no statement raises \<open>sqlite3.Error\<close>; the
  \<open>except sqlite3.Error\<close> branches of the operations are therefore not entered. The engine
  failing is modelled only where the program itself deals with it, in \<open>repair\<close>.
\<close>

type_synonym bytes = "8 word list"

record package =
  pkg_name :: string
  pkg_version :: string
  pkg_size :: int
  pkg_filename :: string
  pkg_installed_time :: real
  pkg_auto_installed :: int
  pkg_simulated :: int

record hidden_file =
  hf_path :: string
  hf_content :: bytes
  hf_size :: int
  hf_created_time :: real
  hf_modified_time :: real
  hf_permissions :: string

text \<open>
  The columns \<open>layers\<close>, \<open>ports\<close>, \<open>volumes\<close> and \<open>env_vars\<close> hold \<open>json.dumps\<close> of a list
  or dictionary; the model keeps the value that was serialised.
\<close>

record image =
  img_id :: string
  img_name :: string
  img_tag :: string
  img_size :: int
  img_created_time :: real
  img_base_image :: "string option"
  img_layers :: "string list"

record container =
  ctr_id :: string
  ctr_name :: string
  ctr_image_id :: string
  ctr_status :: string
  ctr_created_time :: real
  ctr_started_time :: "real option"
  ctr_pid :: "int option"
  ctr_ip_address :: string
  ctr_ports :: "string list"
  ctr_volumes :: "string list"
  ctr_env_vars :: "(string \<times> string) list"
  ctr_command :: string

record volume =
  vol_name :: string
  vol_mountpoint :: string
  vol_size :: int
  vol_created_time :: real

record store =
  packages :: "package list"
  dependencies :: "(string \<times> string) list"
  metadata :: "(string \<times> string) list"
  hidden_files :: "hidden_file list"
  images :: "image list"
  containers :: "container list"
  volumes :: "volume list"

definition empty_store :: store where
  "empty_store = \<lparr>packages = [], dependencies = [], metadata = [], hidden_files = [],
     images = [], containers = [], volumes = []\<rparr>"

section \<open>Package registry\<close>

text \<open>
  \<open>DatabaseManager.add_package\<close>: \<open>INSERT OR REPLACE INTO packages\<close>. An SQLite
  \<open>INTEGER\<close> has 64 bits: binding a \<open>size\<close> outside that range raises \<open>OverflowError\<close>,
  which is not an \<open>sqlite3.Error\<close>, so it leaves \<open>add_package\<close> and nothing is written.
\<close>

datatype py_exception = OverflowError

definition add_package ::
  "store \<Rightarrow> string \<Rightarrow> string \<Rightarrow> int \<Rightarrow> string \<Rightarrow> bool \<Rightarrow> bool \<Rightarrow> real \<Rightarrow>
     py_exception + (bool \<times> store)" where
  "add_package s name version sz filename auto_installed simulated now =
     (if sz < - (2 ^ 63) \<or> 2 ^ 63 \<le> sz then Inl OverflowError
      else Inr (True, s\<lparr>packages := filter (\<lambda>p. pkg_name p \<noteq> name) (packages s) @
        [\<lparr>pkg_name = name, pkg_version = version, pkg_size = sz, pkg_filename = filename,
          pkg_installed_time = now,
          pkg_auto_installed = (if auto_installed then 1 else 0),
          pkg_simulated = (if simulated then 1 else 0)\<rparr>]\<rparr>))"

text \<open>
  \<open>DatabaseManager.remove_package\<close>: \<open>DELETE FROM packages WHERE name = ?\<close>, then
  \<open>DELETE FROM dependencies WHERE package = ? OR depends_on = ?\<close>, then \<open>return True\<close>.
\<close>

definition remove_package :: "store \<Rightarrow> string \<Rightarrow> bool \<times> store" where
  "remove_package s name =
     (True, s\<lparr>packages := filter (\<lambda>p. pkg_name p \<noteq> name) (packages s),
               dependencies :=
                 filter (\<lambda>e. \<not> (fst e = name \<or> snd e = name)) (dependencies s)\<rparr>)"

text \<open>\<open>DatabaseManager.add_dependency\<close>: \<open>INSERT OR IGNORE INTO dependencies\<close>.\<close>

definition add_dependency :: "store \<Rightarrow> string \<Rightarrow> string \<Rightarrow> bool \<times> store" where
  "add_dependency s package depends_on =
     (True, if (package, depends_on) \<in> set (dependencies s) then s
            else s\<lparr>dependencies := dependencies s @ [(package, depends_on)]\<rparr>)"

text \<open>
  \<open>DatabaseManager.get_orphaned_packages\<close>. The two \<open>SELECT name FROM packages WHERE
  auto_installed = \<dots>\<close> give the lists \<open>auto_installed\<close> and \<open>manually_installed\<close>; the
  \<open>for\<close> loop over \<open>manually_installed\<close> is the \<open>fold\<close>, one
  \<open>SELECT depends_on FROM dependencies WHERE package = ?\<close> per round, added to the set
  \<open>needed\<close>; the result is the list comprehension over \<open>auto_installed\<close>.
\<close>

definition depends_on_of :: "store \<Rightarrow> string \<Rightarrow> string list" where
  "depends_on_of s pkg = map snd (filter (\<lambda>e. fst e = pkg) (dependencies s))"

definition get_orphaned_packages :: "store \<Rightarrow> string list" where
  "get_orphaned_packages s =
     (let auto_installed =
            map pkg_name (filter (\<lambda>p. pkg_auto_installed p = 1) (packages s));
          manually_installed =
            map pkg_name (filter (\<lambda>p. pkg_auto_installed p = 0) (packages s));
          needed = fold (\<lambda>pkg needed. needed \<union> set (depends_on_of s pkg))
                     manually_installed {}
      in filter (\<lambda>pkg. pkg \<notin> needed) auto_installed)"

text \<open>
  The sets of the specification of \<open>findOrphaned\<close>, in its words: \<open>A\<close> the packages with
  \<open>autoInstalled = true\<close>, \<open>M\<close> those with \<open>autoInstalled = false\<close>, \<open>N\<close> the union over
  every package in \<open>M\<close> of its declared \<open>depends_on\<close> targets.
\<close>

definition spec_A :: "store \<Rightarrow> string set" where
  "spec_A s = pkg_name ` set (filter (\<lambda>p. pkg_auto_installed p = 1) (packages s))"

definition spec_M :: "store \<Rightarrow> string set" where
  "spec_M s = pkg_name ` set (filter (\<lambda>p. pkg_auto_installed p = 0) (packages s))"

definition spec_N :: "store \<Rightarrow> string set" where
  "spec_N s = (\<Union>m \<in> spec_M s. snd ` set (filter (\<lambda>e. fst e = m) (dependencies s)))"

section \<open>Hidden blob store\<close>

text \<open>
  \<open>DatabaseManager.write_hidden_file\<close>: \<open>INSERT OR REPLACE INTO hidden_files (path, content,
  size, created_time, modified_time) VALUES (?, ?, ?, ?, ?)\<close> with the parameters
  \<open>(path, content, len(content), time.time(), time.time())\<close>. The clock is read twice:
  \<open>t1\<close> and \<open>t2\<close> are the two readings. The column \<open>permissions\<close> is not in the column
  list and takes its default.
\<close>

definition write_hidden_file ::
  "store \<Rightarrow> string \<Rightarrow> bytes \<Rightarrow> real \<Rightarrow> real \<Rightarrow> bool \<times> store" where
  "write_hidden_file s path content t1 t2 =
     (True, s\<lparr>hidden_files := filter (\<lambda>f. hf_path f \<noteq> path) (hidden_files s) @
        [\<lparr>hf_path = path, hf_content = content, hf_size = int (length content),
          hf_created_time = t1, hf_modified_time = t2,
          hf_permissions = ''rw-r--r--''\<rparr>]\<rparr>)"

text \<open>The row of a path, \<open>SELECT * FROM hidden_files WHERE path = ?\<close>.\<close>

definition hidden_file_row :: "store \<Rightarrow> string \<Rightarrow> hidden_file option" where
  "hidden_file_row s path = find (\<lambda>f. hf_path f = path) (hidden_files s)"

text \<open>\<open>DatabaseManager.read_hidden_file\<close>.\<close>

definition read_hidden_file :: "store \<Rightarrow> string \<Rightarrow> bytes option" where
  "read_hidden_file s path = map_option hf_content (hidden_file_row s path)"

section \<open>Container lifecycle manager\<close>

text \<open>
  \<open>ContainerEngine.network['bridge0']['containers']\<close> is a dictionary from container id to
  \<open>{'name', 'ip', 'pid'}\<close>. It lives in memory only. A dictionary is modelled as an
  association list in insertion order; \<open>d[k] = v\<close> is \<open>dict_set\<close>, \<open>del d[k]\<close> is
  \<open>dict_del\<close> and \<open>len(d)\<close> is the length of the list.
\<close>

record net_entry =
  ne_name :: string
  ne_ip :: string
  ne_pid :: int

fun dict_set :: "'k \<Rightarrow> 'v \<Rightarrow> ('k \<times> 'v) list \<Rightarrow> ('k \<times> 'v) list" where
  "dict_set k v [] = [(k, v)]"
| "dict_set k v (kv # kvs) = (if fst kv = k then (k, v) # kvs else kv # dict_set k v kvs)"

definition dict_del :: "'k \<Rightarrow> ('k \<times> 'v) list \<Rightarrow> ('k \<times> 'v) list" where
  "dict_del k kvs = filter (\<lambda>kv. fst kv \<noteq> k) kvs"

record engine =
  db :: store
  network :: "(string \<times> net_entry) list"

definition bridge_subnet :: string where
  "bridge_subnet = ''172.17.0.0/16''"

definition bridge_gateway :: string where
  "bridge_gateway = ''172.17.0.1''"

text \<open>The engine as \<open>ContainerEngine.__init__\<close> leaves it over a database.\<close>

definition new_engine :: "store \<Rightarrow> engine" where
  "new_engine s = \<lparr>db = s, network = []\<rparr>"

text \<open>Python's \<open>str\<close> of a natural number, as the f-string of the IP address prints it.\<close>

fun str_nat :: "nat \<Rightarrow> string" where
  "str_nat n =
     (if n < 10 then [''0123456789'' ! n]
      else str_nat (n div 10) @ [''0123456789'' ! (n mod 10)])"

declare str_nat.simps [simp del]

text \<open>
  \<open>ContainerEngine._generate_id\<close>: the prefix followed by twelve random characters. The
  random characters are the parameter \<open>r\<close>.
\<close>

definition generate_id :: "string \<Rightarrow> string \<Rightarrow> string" where
  "generate_id prefix r = prefix @ r"

text \<open>
  The loop \<open>while True\<close> that draws ids until one is not in the table. \<open>rs\<close> are the
  outcomes of the successive calls of \<open>_generate_id\<close>; the loop returns the first id that
  no row has. It has not returned (\<open>None\<close>) when every outcome in \<open>rs\<close> collides.
\<close>

fun fresh_id :: "string \<Rightarrow> string list \<Rightarrow> string list \<Rightarrow> string option" where
  "fresh_id prefix ids [] = None"
| "fresh_id prefix ids (r # rs) =
     (if generate_id prefix r \<in> set ids then fresh_id prefix ids rs
      else Some (generate_id prefix r))"

text \<open>
  \<open>ContainerEngine.create_image\<close>. The result is \<open>None\<close> when the id loop has not
  returned, else the id and the engine.
\<close>

definition create_image ::
  "engine \<Rightarrow> string \<Rightarrow> string \<Rightarrow> string option \<Rightarrow> real \<Rightarrow> string list \<Rightarrow>
     (string \<times> engine) option" where
  "create_image e name tag base_image now rs =
     (case find (\<lambda>i. img_name i = name \<and> img_tag i = tag) (images (db e)) of
        Some existing \<Rightarrow> Some (img_id existing, e)
      | None \<Rightarrow>
         (case fresh_id ''img_'' (map img_id (images (db e))) rs of
            None \<Rightarrow> None
          | Some image_id \<Rightarrow>
              Some (image_id,
                e\<lparr>db := (db e)\<lparr>images := images (db e) @
                  [\<lparr>img_id = image_id, img_name = name, img_tag = tag,
                    img_size = 100000000, img_created_time = now,
                    img_base_image = base_image,
                    img_layers = [''layer_base'', ''layer_app'', ''layer_config'']\<rparr>]\<rparr>\<rparr>)))"

text \<open>
  The two ways \<open>create_container\<close> returns \<open>None\<close> with a message: the image does not
  resolve, or the name is taken.
\<close>

datatype error = ImageNotFound | NameExists

text \<open>
  \<open>ContainerEngine.create_container\<close>. \<open>ports or []\<close>, \<open>volumes or []\<close> and \<open>env or {}\<close>
  replace a missing argument by the empty value; \<open>image_arg\<close> and \<open>volumes_arg\<close> are
  the parameters \<open>image\<close> and \<open>volumes\<close>. The IP address is
  \<open>f"172.17.0.{len(self.network['bridge0']['containers']) + 2}"\<close>. The columns
  \<open>started_time\<close> and \<open>pid\<close> are not in the column list and are \<open>NULL\<close>. The result is
  \<open>None\<close> when the id loop has not returned.
\<close>

definition create_container ::
  "engine \<Rightarrow> string \<Rightarrow> string \<Rightarrow> string \<Rightarrow> string list option \<Rightarrow> string list option \<Rightarrow>
     (string \<times> string) list option \<Rightarrow> real \<Rightarrow> string list \<Rightarrow>
     ((error + string) \<times> engine) option" where
  "create_container e name image_arg command ports volumes_arg env now rs =
     (case find (\<lambda>i. img_name i = image_arg \<or> img_id i = image_arg) (images (db e)) of
        None \<Rightarrow> Some (Inl ImageNotFound, e)
      | Some img \<Rightarrow>
         (case find (\<lambda>c. ctr_name c = name) (containers (db e)) of
            Some existing \<Rightarrow> Some (Inl NameExists, e)
          | None \<Rightarrow>
             (case fresh_id ''ctr_'' (map ctr_id (containers (db e))) rs of
                None \<Rightarrow> None
              | Some container_id \<Rightarrow>
                  (let ip_addr = ''172.17.0.'' @ str_nat (length (network e) + 2)
                   in Some (Inr container_id,
                        e\<lparr>db := (db e)\<lparr>containers := containers (db e) @
                          [\<lparr>ctr_id = container_id, ctr_name = name,
                            ctr_image_id = img_id img, ctr_status = ''created'',
                            ctr_created_time = now, ctr_started_time = None,
                            ctr_pid = None, ctr_ip_address = ip_addr,
                            ctr_ports = (case ports of None \<Rightarrow> [] | Some p \<Rightarrow> p),
                            ctr_volumes = (case volumes_arg of None \<Rightarrow> [] | Some v \<Rightarrow> v),
                            ctr_env_vars = (case env of None \<Rightarrow> [] | Some v \<Rightarrow> v),
                            ctr_command = command\<rparr>]\<rparr>\<rparr>)))))"

text \<open>
  \<open>SELECT \<dots> FROM containers WHERE name = ? OR id = ?\<close> followed by \<open>fetchone()\<close>. Both
  columns have an index (\<open>name UNIQUE\<close>, \<open>id PRIMARY KEY\<close>), and SQLite answers the \<open>OR\<close>
  from the two indexes in the order of its terms: the row with that name comes first,
  the row with that id after it. So \<open>fetchone()\<close> gives the container with that name
  when there is one, and else the container with that id.
\<close>

definition find_container :: "store \<Rightarrow> string \<Rightarrow> container option" where
  "find_container s name_or_id =
     (case find (\<lambda>c. ctr_name c = name_or_id) (containers s) of
        Some c \<Rightarrow> Some c
      | None \<Rightarrow> find (\<lambda>c. ctr_id c = name_or_id) (containers s))"

text \<open>
  \<open>ContainerEngine.start_container\<close>. \<open>pid\<close> is the outcome of
  \<open>random.randint(1000, 9999)\<close>. The \<open>UPDATE \<dots> WHERE id = ?\<close> rewrites the rows with the
  id of the row found.
\<close>

definition start_container :: "engine \<Rightarrow> string \<Rightarrow> int \<Rightarrow> real \<Rightarrow> bool \<times> engine" where
  "start_container e name_or_id pid now =
     (case find_container (db e) name_or_id of
        None \<Rightarrow> (False, e)
      | Some c \<Rightarrow>
          (True,
           e\<lparr>db := (db e)\<lparr>containers :=
                 map (\<lambda>r. if ctr_id r = ctr_id c
                           then r\<lparr>ctr_status := ''running'', ctr_started_time := Some now,
                                  ctr_pid := Some pid\<rparr>
                           else r) (containers (db e))\<rparr>,
             network := dict_set (ctr_id c)
                 \<lparr>ne_name = ctr_name c, ne_ip = ctr_ip_address c, ne_pid = pid\<rparr>
                 (network e)\<rparr>))"

text \<open>\<open>ContainerEngine.stop_container\<close>.\<close>

definition stop_container :: "engine \<Rightarrow> string \<Rightarrow> bool \<times> engine" where
  "stop_container e name_or_id =
     (case find_container (db e) name_or_id of
        None \<Rightarrow> (False, e)
      | Some c \<Rightarrow>
          (True,
           e\<lparr>db := (db e)\<lparr>containers :=
                 map (\<lambda>r. if ctr_id r = ctr_id c
                           then r\<lparr>ctr_status := ''stopped'', ctr_pid := None\<rparr>
                           else r) (containers (db e))\<rparr>,
             network := dict_del (ctr_id c) (network e)\<rparr>))"

text \<open>\<open>ContainerEngine.remove_container\<close>. The network dictionary is not touched.\<close>

definition remove_container :: "engine \<Rightarrow> string \<Rightarrow> bool \<Rightarrow> bool \<times> engine" where
  "remove_container e name_or_id force =
     (case find_container (db e) name_or_id of
        None \<Rightarrow> (False, e)
      | Some c \<Rightarrow>
          if ctr_status c = ''running'' \<and> \<not> force then (False, e)
          else (True,
                e\<lparr>db := (db e)\<lparr>containers :=
                      filter (\<lambda>r. ctr_id r \<noteq> ctr_id c) (containers (db e))\<rparr>\<rparr>))"

text \<open>
  \<open>ContainerEngine.list_containers\<close>: \<open>ORDER BY created_time DESC\<close>, over all rows or over
  the running ones. SQLite keeps rows with equal \<open>created_time\<close> in table order, as the
  stable sort on the negated time does.
\<close>

definition list_containers :: "engine \<Rightarrow> bool \<Rightarrow> container list" where
  "list_containers e all_containers =
     sort_key (\<lambda>c. - ctr_created_time c)
       (if all_containers then containers (db e)
        else filter (\<lambda>c. ctr_status c = ''running'') (containers (db e)))"

text \<open>
  The states that \<open>create_container\<close>, \<open>start_container\<close> and \<open>stop_container\<close> reach from
  an engine with no container row (whatever its images), with any arguments, clock
  readings and random outcomes.
\<close>

inductive reachable :: "engine \<Rightarrow> bool" where
  reach_init: "containers (db e) = [] \<Longrightarrow> reachable e"
| reach_create: "reachable e \<Longrightarrow>
     create_container e name image_arg command ports volumes_arg env now rs = Some (r, e') \<Longrightarrow>
     reachable e'"
| reach_start: "reachable e \<Longrightarrow> start_container e name_or_id pid now = (ok, e') \<Longrightarrow>
     reachable e'"
| reach_stop: "reachable e \<Longrightarrow> stop_container e name_or_id = (ok, e') \<Longrightarrow> reachable e'"

text \<open>
  What the specification asks of a container row: a status among the three, and a
  process id exactly while running.
\<close>

definition ctr_ok :: "container \<Rightarrow> bool" where
  "ctr_ok c \<longleftrightarrow> ctr_status c \<in> {''created'', ''running'', ''stopped''} \<and>
     ((ctr_pid c \<noteq> None) = (ctr_status c = ''running''))"

section \<open>Full reset\<close>

datatype table = Packages | Dependencies | Metadata | HiddenFiles | Images | Containers | Volumes

text \<open>\<open>DELETE FROM table\<close> and the \<open>cursor.rowcount\<close> it leaves.\<close>

fun rowcount :: "table \<Rightarrow> store \<Rightarrow> nat" where
  "rowcount Packages s = length (packages s)"
| "rowcount Dependencies s = length (dependencies s)"
| "rowcount Metadata s = length (metadata s)"
| "rowcount HiddenFiles s = length (hidden_files s)"
| "rowcount Images s = length (images s)"
| "rowcount Containers s = length (containers s)"
| "rowcount Volumes s = length (volumes s)"

fun delete_from :: "table \<Rightarrow> store \<Rightarrow> store" where
  "delete_from Packages s = s\<lparr>packages := []\<rparr>"
| "delete_from Dependencies s = s\<lparr>dependencies := []\<rparr>"
| "delete_from Metadata s = s\<lparr>metadata := []\<rparr>"
| "delete_from HiddenFiles s = s\<lparr>hidden_files := []\<rparr>"
| "delete_from Images s = s\<lparr>images := []\<rparr>"
| "delete_from Containers s = s\<lparr>containers := []\<rparr>"
| "delete_from Volumes s = s\<lparr>volumes := []\<rparr>"

text \<open>
  Python's \<open>str.strip()\<close>. A \<open>char\<close> stands for a code point below 256; \<open>is_space\<close>
  holds for those of them for which \<open>str.isspace\<close> does.
\<close>

definition is_space :: "char \<Rightarrow> bool" where
  "is_space c \<longleftrightarrow>
     (of_char c :: nat) \<in> {9, 10, 11, 12, 13, 28, 29, 30, 31, 32, 133, 160}"

definition strip :: "string \<Rightarrow> string" where
  "strip s = rev (dropWhile is_space (rev (dropWhile is_space s)))"

text \<open>
  \<open>KernelAddCLI._cmd_dbclean\<close>. \<open>typed\<close> is what \<open>input()\<close> returns. The result is \<open>None\<close>
  when the command is cancelled, else the numbers of deleted rows that are printed,
  in the order of the list \<open>tables\<close>.
\<close>

definition dbclean_tables :: "table list" where
  "dbclean_tables = [Packages, Dependencies, HiddenFiles, Containers, Images, Volumes, Metadata]"

definition cmd_dbclean :: "store \<Rightarrow> string \<Rightarrow> (table \<times> nat) list option \<times> store" where
  "cmd_dbclean s typed =
     (let confirm = strip typed
      in if confirm \<noteq> ''DELETE EVERYTHING'' then (None, s)
         else (let (deleted, s') =
                     fold (\<lambda>table (deleted, s).
                             (deleted @ [(table, rowcount table s)], delete_from table s))
                       dbclean_tables ([], s)
               in (Some deleted, s')))"

section \<open>Repair\<close>

text \<open>
  \<open>DatabaseManager.repair\<close> works on files. A database file is the set of its tables,
  their rows, and whether the engine can read it: on a file that it cannot read, every
  statement that touches the file raises \<open>sqlite3.DatabaseError\<close>. What the engine does
  on a damaged file is not in the program; a file that is read in part, with rows
  missing and no error, is not modelled. Three paths matter:
  the database (\<open>self.db_path\<close>), the temporary file (\<open>db_path + ".temp"\<close>) and the
  backups (\<open>db_path + ".backup." + str(int(time.time()))\<close>), the latter keyed by the
  number in their name. The file operations themselves (\<open>shutil.copy2\<close>, \<open>os.replace\<close>,
  \<open>os.remove\<close>) are taken to succeed.
\<close>

record dbfile =
  df_tables :: "table set"
  df_rows :: store
  df_readable :: bool

record filesystem =
  db_file :: "dbfile option"
  temp_file :: "dbfile option"
  backup_files :: "(int \<times> dbfile) list"

text \<open>The file that \<open>sqlite3.connect\<close> makes where there is none.\<close>

definition new_dbfile :: dbfile where
  "new_dbfile = \<lparr>df_tables = {}, df_rows = empty_store, df_readable = True\<rparr>"

definition connect :: "dbfile option \<Rightarrow> dbfile" where
  "connect file = (case file of None \<Rightarrow> new_dbfile | Some f \<Rightarrow> f)"

datatype row =
    PackageRow package
  | DependencyRow "string \<times> string"
  | MetadataRow "string \<times> string"
  | HiddenFileRow hidden_file
  | ImageRow image
  | ContainerRow container
  | VolumeRow volume

datatype statement = BeginTransaction | CreateTable table | InsertInto row | CommitTransaction

fun table_rows :: "table \<Rightarrow> store \<Rightarrow> row list" where
  "table_rows Packages s = map PackageRow (packages s)"
| "table_rows Dependencies s = map DependencyRow (dependencies s)"
| "table_rows Metadata s = map MetadataRow (metadata s)"
| "table_rows HiddenFiles s = map HiddenFileRow (hidden_files s)"
| "table_rows Images s = map ImageRow (images s)"
| "table_rows Containers s = map ContainerRow (containers s)"
| "table_rows Volumes s = map VolumeRow (volumes s)"

text \<open>
  \<open>Connection.iterdump()\<close> of the Python library: \<open>BEGIN TRANSACTION\<close>, then for every
  table of the file, in the order of their names, its \<open>CREATE TABLE\<close> and one
  \<open>INSERT INTO\<close> per row, then \<open>COMMIT\<close>. On a file that cannot be read it raises
  (\<open>None\<close>).

  The values of an \<open>INSERT INTO\<close> are written by SQLite's \<open>quote()\<close>, which ends a
  \<open>TEXT\<close> value at its first NUL character: \<open>dumped_row\<close> is the row that the statement
  inserts. Integers, reals, \<open>NULL\<close> and the \<open>BLOB\<close> of a hidden file are written in
  full, and so are the columns that hold \<open>json.dumps\<close> of a value, which has no NUL
  character (\<open>json.dumps\<close> writes it as an escape).
\<close>

definition cut_nul :: "string \<Rightarrow> string" where
  "cut_nul text = takeWhile (\<lambda>c. c \<noteq> CHR 0x00) text"

fun dumped_row :: "row \<Rightarrow> row" where
  "dumped_row (PackageRow p) =
     PackageRow (p\<lparr>pkg_name := cut_nul (pkg_name p), pkg_version := cut_nul (pkg_version p),
       pkg_filename := cut_nul (pkg_filename p)\<rparr>)"
| "dumped_row (DependencyRow d) = DependencyRow (cut_nul (fst d), cut_nul (snd d))"
| "dumped_row (MetadataRow m) = MetadataRow (cut_nul (fst m), cut_nul (snd m))"
| "dumped_row (HiddenFileRow h) =
     HiddenFileRow (h\<lparr>hf_path := cut_nul (hf_path h),
       hf_permissions := cut_nul (hf_permissions h)\<rparr>)"
| "dumped_row (ImageRow i) =
     ImageRow (i\<lparr>img_id := cut_nul (img_id i), img_name := cut_nul (img_name i),
       img_tag := cut_nul (img_tag i),
       img_base_image := map_option cut_nul (img_base_image i)\<rparr>)"
| "dumped_row (ContainerRow c) =
     ContainerRow (c\<lparr>ctr_id := cut_nul (ctr_id c), ctr_name := cut_nul (ctr_name c),
       ctr_image_id := cut_nul (ctr_image_id c), ctr_status := cut_nul (ctr_status c),
       ctr_ip_address := cut_nul (ctr_ip_address c),
       ctr_command := cut_nul (ctr_command c)\<rparr>)"
| "dumped_row (VolumeRow v) =
     VolumeRow (v\<lparr>vol_name := cut_nul (vol_name v),
       vol_mountpoint := cut_nul (vol_mountpoint v)\<rparr>)"

definition tables_by_name :: "table list" where
  "tables_by_name = [Containers, Dependencies, HiddenFiles, Images, Metadata, Packages, Volumes]"

definition dump_table :: "dbfile \<Rightarrow> table \<Rightarrow> statement list" where
  "dump_table f t =
     (if t \<in> df_tables f
      then CreateTable t # map (\<lambda>r. InsertInto (dumped_row r)) (table_rows t (df_rows f))
      else [])"

definition iterdump :: "dbfile \<Rightarrow> statement list option" where
  "iterdump f =
     (if df_readable f
      then Some (BeginTransaction # concat (map (dump_table f) tables_by_name) @
                 [CommitTransaction])
      else None)"

text \<open>
  An \<open>INSERT INTO\<close> under the keys of the schema: \<open>packages.name\<close>,
  \<open>(dependencies.package, dependencies.depends_on)\<close>, \<open>metadata.key\<close>,
  \<open>hidden_files.path\<close>, \<open>images.id\<close>, \<open>containers.id\<close> with \<open>containers.name UNIQUE\<close>,
  \<open>volumes.name\<close>. \<open>None\<close> is \<open>sqlite3.IntegrityError\<close>.
\<close>

fun insert_row :: "row \<Rightarrow> store \<Rightarrow> store option" where
  "insert_row (PackageRow p) s =
     (if pkg_name p \<in> pkg_name ` set (packages s) then None
      else Some (s\<lparr>packages := packages s @ [p]\<rparr>))"
| "insert_row (DependencyRow d) s =
     (if d \<in> set (dependencies s) then None
      else Some (s\<lparr>dependencies := dependencies s @ [d]\<rparr>))"
| "insert_row (MetadataRow m) s =
     (if fst m \<in> fst ` set (metadata s) then None
      else Some (s\<lparr>metadata := metadata s @ [m]\<rparr>))"
| "insert_row (HiddenFileRow h) s =
     (if hf_path h \<in> hf_path ` set (hidden_files s) then None
      else Some (s\<lparr>hidden_files := hidden_files s @ [h]\<rparr>))"
| "insert_row (ImageRow i) s =
     (if img_id i \<in> img_id ` set (images s) then None
      else Some (s\<lparr>images := images s @ [i]\<rparr>))"
| "insert_row (ContainerRow c) s =
     (if ctr_id c \<in> ctr_id ` set (containers s) \<or> ctr_name c \<in> ctr_name ` set (containers s)
      then None
      else Some (s\<lparr>containers := containers s @ [c]\<rparr>))"
| "insert_row (VolumeRow v) s =
     (if vol_name v \<in> vol_name ` set (volumes s) then None
      else Some (s\<lparr>volumes := volumes s @ [v]\<rparr>))"

fun row_table :: "row \<Rightarrow> table" where
  "row_table (PackageRow p) = Packages"
| "row_table (DependencyRow d) = Dependencies"
| "row_table (MetadataRow m) = Metadata"
| "row_table (HiddenFileRow h) = HiddenFiles"
| "row_table (ImageRow i) = Images"
| "row_table (ContainerRow c) = Containers"
| "row_table (VolumeRow v) = Volumes"

text \<open>
  \<open>Connection.execute\<close> of one dumped statement; \<open>None\<close> is \<open>sqlite3.Error\<close>: the file
  cannot be read, the table of a \<open>CREATE TABLE\<close> exists, the table of an \<open>INSERT\<close> does
  not, or the row breaks a key.
\<close>

fun execute :: "dbfile \<Rightarrow> statement \<Rightarrow> dbfile option" where
  "execute f BeginTransaction = Some f"
| "execute f CommitTransaction = Some f"
| "execute f (CreateTable t) =
     (if \<not> df_readable f \<or> t \<in> df_tables f then None
      else Some (f\<lparr>df_tables := insert t (df_tables f)\<rparr>))"
| "execute f (InsertInto r) =
     (if \<not> df_readable f \<or> row_table r \<notin> df_tables f then None
      else map_option (\<lambda>s. f\<lparr>df_rows := s\<rparr>) (insert_row r (df_rows f)))"

text \<open>
  The body of the loop \<open>for line in old_conn.iterdump()\<close>:
  \<open>try: new_conn.execute(line) except sqlite3.Error: continue\<close>.
\<close>

definition replay_line :: "statement \<Rightarrow> dbfile \<Rightarrow> dbfile" where
  "replay_line line new = (case execute new line of None \<Rightarrow> new | Some new' \<Rightarrow> new')"

text \<open>
  \<open>DatabaseManager._init_database\<close> on the file it connects to: four
  \<open>CREATE TABLE IF NOT EXISTS\<close>; on \<open>sqlite3.Error\<close> it prints a message and returns. The
  tables \<open>images\<close>, \<open>containers\<close> and \<open>volumes\<close> are made by
  \<open>ContainerEngine._init_container_tables\<close>, which \<open>repair\<close> does not call.
\<close>

definition init_database :: "dbfile \<Rightarrow> dbfile" where
  "init_database f =
     (if df_readable f
      then f\<lparr>df_tables := df_tables f \<union> {Packages, Dependencies, Metadata, HiddenFiles}\<rparr>
      else f)"

text \<open>
  \<open>DatabaseManager.repair\<close>. \<open>fs1\<close> is the file system after the backup, \<open>fs2\<close> after the
  two \<open>sqlite3.connect\<close>, \<open>fs3\<close> after the inner \<open>try\<close>: either the loop over the dump
  ends and \<open>os.replace\<close> moves the temporary file over the database, or the dump raises
  and the handler removes both files. Then \<open>_init_database\<close> runs and \<open>repair\<close> returns
  \<open>True\<close>.
\<close>

definition repair :: "filesystem \<Rightarrow> real \<Rightarrow> bool \<times> filesystem" where
  "repair fs now =
     (let fs1 = (case db_file fs of
                   None \<Rightarrow> fs
                 | Some f \<Rightarrow> fs\<lparr>backup_files := dict_set \<lfloor>now\<rfloor> f (backup_files fs)\<rparr>);
          old = connect (db_file fs1);
          new = connect (temp_file fs1);
          fs2 = fs1\<lparr>db_file := Some old, temp_file := Some new\<rparr>;
          fs3 = (case iterdump old of
                   Some lines \<Rightarrow>
                     fs2\<lparr>db_file := Some (fold replay_line lines new), temp_file := None\<rparr>
                 | None \<Rightarrow> fs2\<lparr>db_file := None, temp_file := None\<rparr>)
      in (True, fs3\<lparr>db_file := Some (init_database (connect (db_file fs3)))\<rparr>))"

text \<open>
  What every file written by the engine satisfies: the keys of the schema are unique,
  and a table that does not exist has no rows.
\<close>

definition keys_unique :: "store \<Rightarrow> bool" where
  "keys_unique s \<longleftrightarrow>
     distinct (map pkg_name (packages s)) \<and> distinct (dependencies s) \<and>
     distinct (map fst (metadata s)) \<and> distinct (map hf_path (hidden_files s)) \<and>
     distinct (map img_id (images s)) \<and> distinct (map ctr_id (containers s)) \<and>
     distinct (map ctr_name (containers s)) \<and> distinct (map vol_name (volumes s))"

definition well_formed :: "dbfile \<Rightarrow> bool" where
  "well_formed f \<longleftrightarrow>
     keys_unique (df_rows f) \<and>
     list_all (\<lambda>t. t \<in> df_tables f \<or> table_rows t (df_rows f) = []) tables_by_name"

text \<open>The \<open>TEXT\<close> values of a row that \<open>quote()\<close> may cut, and a store in which none of
  them holds a NUL character.\<close>

fun text_values :: "row \<Rightarrow> string list" where
  "text_values (PackageRow p) = [pkg_name p, pkg_version p, pkg_filename p]"
| "text_values (DependencyRow d) = [fst d, snd d]"
| "text_values (MetadataRow m) = [fst m, snd m]"
| "text_values (HiddenFileRow h) = [hf_path h, hf_permissions h]"
| "text_values (ImageRow i) =
     [img_id i, img_name i, img_tag i] @
     (case img_base_image i of None \<Rightarrow> [] | Some b \<Rightarrow> [b])"
| "text_values (ContainerRow c) =
     [ctr_id c, ctr_name c, ctr_image_id c, ctr_status c, ctr_ip_address c, ctr_command c]"
| "text_values (VolumeRow v) = [vol_name v, vol_mountpoint v]"

definition nul_free :: "store \<Rightarrow> bool" where
  "nul_free s \<longleftrightarrow>
     list_all (\<lambda>t. list_all (\<lambda>r. list_all (\<lambda>text. CHR 0x00 \<notin> set text) (text_values r))
                      (table_rows t s)) tables_by_name"

text \<open>
  \<open>copy_table t s r\<close> is \<open>r\<close> with the rows of table \<open>t\<close> taken from \<open>s\<close>; it serves to
  say what replaying the dump of one table does.
\<close>

fun copy_table :: "table \<Rightarrow> store \<Rightarrow> store \<Rightarrow> store" where
  "copy_table Packages s r = r\<lparr>packages := packages s\<rparr>"
| "copy_table Dependencies s r = r\<lparr>dependencies := dependencies s\<rparr>"
| "copy_table Metadata s r = r\<lparr>metadata := metadata s\<rparr>"
| "copy_table HiddenFiles s r = r\<lparr>hidden_files := hidden_files s\<rparr>"
| "copy_table Images s r = r\<lparr>images := images s\<rparr>"
| "copy_table Containers s r = r\<lparr>containers := containers s\<rparr>"
| "copy_table Volumes s r = r\<lparr>volumes := volumes s\<rparr>"

section \<open>Example states\<close>

text \<open>
  A registry with one manually installed package \<open>app\<close> that depends on \<open>libfoo\<close>, and
  three automatically installed ones; \<open>libfoo\<close> depends on \<open>libbar\<close>.
\<close>

definition pkg :: "string \<Rightarrow> int \<Rightarrow> package" where
  "pkg name auto = \<lparr>pkg_name = name, pkg_version = ''1.0'', pkg_size = 1024,
     pkg_filename = name @ ''.deb'', pkg_installed_time = 1, pkg_auto_installed = auto,
     pkg_simulated = 0\<rparr>"

definition registry_example :: store where
  "registry_example = empty_store
     \<lparr>packages := [pkg ''app'' 0, pkg ''libfoo'' 1, pkg ''libbar'' 1, pkg ''libbaz'' 1],
      dependencies := [(''app'', ''libfoo''), (''libfoo'', ''libbar'')]\<rparr>"

text \<open>A blob store with one file, written at time 100.\<close>

definition motd :: hidden_file where
  "motd = \<lparr>hf_path = ''/etc/motd'', hf_content = [104, 105], hf_size = 2,
     hf_created_time = 100, hf_modified_time = 100, hf_permissions = ''rw-r--r--''\<rparr>"

definition blobs_example :: store where
  "blobs_example = empty_store\<lparr>hidden_files := [motd]\<rparr>"

text \<open>
  An engine over an empty database after \<open>create_image('alpine')\<close>, then after
  \<open>create_container('web', 'alpine')\<close>, then after \<open>create_container('api', 'alpine')\<close>;
  and the second of these after \<open>start_container('web')\<close>.
\<close>

definition alpine :: image where
  "alpine = \<lparr>img_id = ''img_k3x9q2m7w1zc'', img_name = ''alpine'', img_tag = ''latest'',
     img_size = 100000000, img_created_time = 10, img_base_image = None,
     img_layers = [''layer_base'', ''layer_app'', ''layer_config'']\<rparr>"

definition ctr :: "string \<Rightarrow> string \<Rightarrow> real \<Rightarrow> string \<Rightarrow> container" where
  "ctr cid name t ip = \<lparr>ctr_id = cid, ctr_name = name, ctr_image_id = ''img_k3x9q2m7w1zc'',
     ctr_status = ''created'', ctr_created_time = t, ctr_started_time = None,
     ctr_pid = None, ctr_ip_address = ip, ctr_ports = [], ctr_volumes = [],
     ctr_env_vars = [], ctr_command = ''/bin/sh''\<rparr>"

definition engine_alpine :: engine where
  "engine_alpine = \<lparr>db = empty_store\<lparr>images := [alpine]\<rparr>, network = []\<rparr>"

definition engine_web :: engine where
  "engine_web = \<lparr>db = empty_store\<lparr>images := [alpine],
       containers := [ctr ''ctr_a1b2c3d4e5f6'' ''web'' 20 ''172.17.0.2'']\<rparr>,
     network = []\<rparr>"

definition engine_web_api :: engine where
  "engine_web_api = \<lparr>db = empty_store\<lparr>images := [alpine],
       containers := [ctr ''ctr_a1b2c3d4e5f6'' ''web'' 20 ''172.17.0.2'',
                      ctr ''ctr_0z9y8x7w6v5u'' ''api'' 30 ''172.17.0.2'']\<rparr>,
     network = []\<rparr>"

text \<open>
  The engine after \<open>create_container('web', 'alpine')\<close> and then
  \<open>create_container('ctr_a1b2c3d4e5f6', 'alpine')\<close>: the name of the second container is
  the id of the first.
\<close>

definition engine_shadowed :: engine where
  "engine_shadowed = \<lparr>db = empty_store\<lparr>images := [alpine],
       containers := [ctr ''ctr_a1b2c3d4e5f6'' ''web'' 20 ''172.17.0.2'',
                      ctr ''ctr_0z9y8x7w6v5u'' ''ctr_a1b2c3d4e5f6'' 30 ''172.17.0.2'']\<rparr>,
     network = []\<rparr>"

definition engine_web_running :: engine where
  "engine_web_running = \<lparr>db = empty_store\<lparr>images := [alpine],
       containers := [(ctr ''ctr_a1b2c3d4e5f6'' ''web'' 20 ''172.17.0.2'')
          \<lparr>ctr_status := ''running'', ctr_started_time := Some 40, ctr_pid := Some 4321\<rparr>]\<rparr>,
     network = [(''ctr_a1b2c3d4e5f6'',
        \<lparr>ne_name = ''web'', ne_ip = ''172.17.0.2'', ne_pid = 4321\<rparr>)]\<rparr>"

text \<open>
  A database file with the package \<open>app\<close> and the container \<open>web\<close>, the same file when
  it cannot be read, and a temporary file that an interrupted run has left behind,
  holding a \<open>packages\<close> table with the package \<open>libold\<close>.
\<close>

definition all_tables :: "table set" where
  "all_tables = {Packages, Dependencies, Metadata, HiddenFiles, Images, Containers, Volumes}"

definition kernel_db :: dbfile where
  "kernel_db = \<lparr>df_tables = all_tables,
     df_rows = empty_store\<lparr>packages := [pkg ''app'' 0], images := [alpine],
       containers := [ctr ''ctr_a1b2c3d4e5f6'' ''web'' 20 ''172.17.0.2'']\<rparr>,
     df_readable = True\<rparr>"

definition leftover_temp :: dbfile where
  "leftover_temp = \<lparr>df_tables = {Packages},
     df_rows = empty_store\<lparr>packages := [pkg ''libold'' 1]\<rparr>, df_readable = True\<rparr>"

definition fs_healthy :: filesystem where
  "fs_healthy = \<lparr>db_file = Some kernel_db, temp_file = None, backup_files = []\<rparr>"

definition fs_damaged :: filesystem where
  "fs_damaged = \<lparr>db_file = Some (kernel_db\<lparr>df_readable := False\<rparr>), temp_file = None,
     backup_files = []\<rparr>"

definition fs_leftover :: filesystem where
  "fs_leftover = \<lparr>db_file = Some kernel_db, temp_file = Some leftover_temp,
     backup_files = []\<rparr>"

text \<open>
  A database file with two packages, named \<open>a\<close> and \<open>a\<close>, NUL, \<open>b\<close>, and what \<open>repair\<close>
  leaves of it.
\<close>

definition nul_db :: dbfile where
  "nul_db = \<lparr>df_tables = all_tables,
     df_rows = empty_store\<lparr>packages := [pkg ''a'' 0, pkg [CHR ''a'', CHR 0x00, CHR ''b''] 0]\<rparr>,
     df_readable = True\<rparr>"

definition fs_nul :: filesystem where
  "fs_nul = \<lparr>db_file = Some nul_db, temp_file = None, backup_files = []\<rparr>"

definition nul_db_repaired :: dbfile where
  "nul_db_repaired = \<lparr>df_tables = all_tables,
     df_rows = empty_store\<lparr>packages := [pkg ''a'' 0]\<rparr>, df_readable = True\<rparr>"

text \<open>The dump of \<open>kernel_db\<close>.\<close>

definition kernel_db_lines :: "statement list" where
  "kernel_db_lines =
     [BeginTransaction,
      CreateTable Containers,
      InsertInto (ContainerRow (ctr ''ctr_a1b2c3d4e5f6'' ''web'' 20 ''172.17.0.2'')),
      CreateTable Dependencies, CreateTable HiddenFiles,
      CreateTable Images, InsertInto (ImageRow alpine),
      CreateTable Metadata,
      CreateTable Packages, InsertInto (PackageRow (pkg ''app'' 0)),
      CreateTable Volumes,
      CommitTransaction]"

text \<open>What \<open>repair\<close> leaves as the database when it starts from \<open>fs_leftover\<close>.\<close>

definition merged_db :: dbfile where
  "merged_db = \<lparr>df_tables = all_tables,
     df_rows = empty_store\<lparr>packages := [pkg ''libold'' 1, pkg ''app'' 0], images := [alpine],
       containers := [ctr ''ctr_a1b2c3d4e5f6'' ''web'' 20 ''172.17.0.2'']\<rparr>,
     df_readable = True\<rparr>"

section \<open>Helper lemmas\<close>

lemma find_map_same:
  "(\<And>x. P (f x) = P x) \<Longrightarrow> find P (map f xs) = map_option f (find P xs)"
  by (induction xs) auto

lemma find_replaced_key:
  "k x = p \<Longrightarrow> find (\<lambda>y. k y = p) (filter (\<lambda>y. k y \<noteq> p) xs @ [x]) = Some x"
  by (induction xs) auto

lemma find_other_key:
  "k x = p \<Longrightarrow> q \<noteq> p \<Longrightarrow>
   find (\<lambda>y. k y = q) (filter (\<lambda>y. k y \<noteq> p) xs @ [x]) = find (\<lambda>y. k y = q) xs"
  by (induction xs) auto

subsection \<open>The loop of \<open>get_orphaned_packages\<close>\<close>

lemma fold_needed:
  "fold (\<lambda>pkg needed. needed \<union> set (depends_on_of s pkg)) ms acc
     = acc \<union> (\<Union>m \<in> set ms. set (depends_on_of s m))"
  by (induction ms arbitrary: acc) auto

lemma depends_on_of_set:
  "set (depends_on_of s m) = snd ` set (filter (\<lambda>e. fst e = m) (dependencies s))"
  by (simp add: depends_on_of_def)

lemma needed_spec_N:
  "fold (\<lambda>pkg needed. needed \<union> set (depends_on_of s pkg))
     (map pkg_name (filter (\<lambda>p. pkg_auto_installed p = 0) (packages s))) {} = spec_N s"
  unfolding fold_needed by (simp add: spec_N_def spec_M_def depends_on_of_set)

lemma get_orphaned_packages_set: "set (get_orphaned_packages s) = spec_A s - spec_N s"
  by (auto simp: get_orphaned_packages_def Let_def needed_spec_N spec_A_def)

lemma get_orphaned_packages_distinct:
  "distinct (map pkg_name (packages s)) \<Longrightarrow> distinct (get_orphaned_packages s)"
  by (simp add: get_orphaned_packages_def Let_def distinct_map_filter)

lemma registry_example_orphaned:
  "get_orphaned_packages registry_example = [''libbar'', ''libbaz'']"
  by (simp add: get_orphaned_packages_def registry_example_def empty_store_def pkg_def
      depends_on_of_def)

lemma registry_example_M: "spec_M registry_example = {''app''}"
  by (simp add: spec_M_def registry_example_def empty_store_def pkg_def)

lemma registry_example_A: "spec_A registry_example = {''libfoo'', ''libbar'', ''libbaz''}"
  by (simp add: spec_A_def registry_example_def empty_store_def pkg_def)

subsection \<open>Container lookups after an update\<close>

text \<open>An update that keeps names and ids does not change which row a key resolves to.\<close>

lemma find_container_map:
  assumes "\<And>r. ctr_name (f r) = ctr_name r" and "\<And>r. ctr_id (f r) = ctr_id r"
  shows "find_container (s\<lparr>containers := map f (containers s)\<rparr>) key =
     map_option f (find_container s key)"
proof -
  have by_name: "find (\<lambda>c. ctr_name c = key) (map f (containers s)) =
      map_option f (find (\<lambda>c. ctr_name c = key) (containers s))"
    by (rule find_map_same) (simp add: assms)
  have by_id: "find (\<lambda>c. ctr_id c = key) (map f (containers s)) =
      map_option f (find (\<lambda>c. ctr_id c = key) (containers s))"
    by (rule find_map_same) (simp add: assms)
  show ?thesis
    by (cases "find (\<lambda>c. ctr_name c = key) (containers s)")
      (simp_all add: find_container_def by_name by_id)
qed

lemma find_container_start:
  assumes "find_container (db e) key = Some c"
  shows "find_container (db (snd (start_container e key pid now))) key =
     Some (c\<lparr>ctr_status := ''running'', ctr_started_time := Some now, ctr_pid := Some pid\<rparr>)"
proof -
  let ?f = "\<lambda>r. if ctr_id r = ctr_id c
                then r\<lparr>ctr_status := ''running'', ctr_started_time := Some now,
                       ctr_pid := Some pid\<rparr>
                else r"
  have "find_container ((db e)\<lparr>containers := map ?f (containers (db e))\<rparr>) key =
      map_option ?f (find_container (db e) key)"
    by (rule find_container_map) simp_all
  with assms show ?thesis
    by (simp add: start_container_def)
qed

lemma find_container_stop:
  assumes "find_container (db e) key = Some c"
  shows "find_container (db (snd (stop_container e key))) key =
     Some (c\<lparr>ctr_status := ''stopped'', ctr_pid := None\<rparr>)"
proof -
  let ?f = "\<lambda>r. if ctr_id r = ctr_id c then r\<lparr>ctr_status := ''stopped'', ctr_pid := None\<rparr>
                else r"
  have "find_container ((db e)\<lparr>containers := map ?f (containers (db e))\<rparr>) key =
      map_option ?f (find_container (db e) key)"
    by (rule find_container_map) simp_all
  with assms show ?thesis
    by (simp add: stop_container_def)
qed

lemma set_list_containers_all: "set (list_containers e True) = set (containers (db e))"
  by (simp add: list_containers_def)

subsection \<open>The example engine, step by step\<close>

lemma create_alpine:
  "create_image (new_engine empty_store) ''alpine'' ''latest'' None 10 [''k3x9q2m7w1zc'']
     = Some (''img_k3x9q2m7w1zc'', engine_alpine)"
  by (simp add: create_image_def new_engine_def empty_store_def engine_alpine_def alpine_def
      generate_id_def)

lemma create_web:
  "create_container engine_alpine ''web'' ''alpine'' ''/bin/sh'' None None None 20
     [''a1b2c3d4e5f6''] = Some (Inr ''ctr_a1b2c3d4e5f6'', engine_web)"
  by (simp add: create_container_def empty_store_def engine_alpine_def engine_web_def
      alpine_def ctr_def generate_id_def str_nat.simps)

lemma create_api:
  "create_container engine_web ''api'' ''alpine'' ''/bin/sh'' None None None 30
     [''0z9y8x7w6v5u''] = Some (Inr ''ctr_0z9y8x7w6v5u'', engine_web_api)"
  by (simp add: create_container_def empty_store_def engine_web_api_def engine_web_def
      alpine_def ctr_def generate_id_def str_nat.simps)

lemma find_web:
  "find_container (db engine_web) ''web'' = Some (ctr ''ctr_a1b2c3d4e5f6'' ''web'' 20 ''172.17.0.2'')"
  by (simp add: find_container_def engine_web_def empty_store_def ctr_def)

lemma start_web: "start_container engine_web ''web'' 4321 40 = (True, engine_web_running)"
  by (simp add: start_container_def find_container_def empty_store_def
      engine_web_running_def engine_web_def alpine_def ctr_def)

lemma reachable_web_running: "reachable engine_web_running"
proof -
  have "containers (db engine_alpine) = []"
    by (simp add: engine_alpine_def empty_store_def)
  then have "reachable engine_alpine" by (rule reach_init)
  then have "reachable engine_web" using create_web by (rule reach_create)
  then show ?thesis using start_web by (rule reach_start)
qed

subsection \<open>The allocation of addresses\<close>

text \<open>
  The address of a new container is made from the size of the network dictionary, which
  \<open>create_container\<close> leaves as it is.
\<close>

lemma create_container_ip:
  assumes "create_container e name image_arg command ports volumes_arg env now rs
             = Some (Inr cid, e')"
  shows "network e' = network e \<and>
         (\<exists>c. containers (db e') = containers (db e) @ [c] \<and> ctr_id c = cid \<and>
              ctr_ip_address c = ''172.17.0.'' @ str_nat (length (network e) + 2))"
  using assms by (auto simp: create_container_def Let_def split: option.splits)

subsection \<open>Every operation keeps the rows well-formed\<close>

lemma ctr_ok_started:
  "ctr_ok (r\<lparr>ctr_status := ''running'', ctr_started_time := t, ctr_pid := Some pid\<rparr>)"
  by (simp add: ctr_ok_def)

lemma ctr_ok_stopped: "ctr_ok (r\<lparr>ctr_status := ''stopped'', ctr_pid := None\<rparr>)"
  by (simp add: ctr_ok_def)

lemma create_container_ok:
  "create_container e name image_arg command ports volumes_arg env now rs = Some (r, e') \<Longrightarrow>
   \<forall>c \<in> set (containers (db e)). ctr_ok c \<Longrightarrow> \<forall>c \<in> set (containers (db e')). ctr_ok c"
  by (auto simp: create_container_def Let_def ctr_ok_def split: option.splits)

lemma start_container_ok:
  "start_container e key pid now = (ok, e') \<Longrightarrow>
   \<forall>c \<in> set (containers (db e)). ctr_ok c \<Longrightarrow> \<forall>c \<in> set (containers (db e')). ctr_ok c"
  by (auto simp: start_container_def ctr_ok_started split: option.splits)

lemma stop_container_ok:
  "stop_container e key = (ok, e') \<Longrightarrow>
   \<forall>c \<in> set (containers (db e)). ctr_ok c \<Longrightarrow> \<forall>c \<in> set (containers (db e')). ctr_ok c"
  by (auto simp: stop_container_def ctr_ok_stopped split: option.splits)

lemma reachable_ok: "reachable e \<Longrightarrow> \<forall>c \<in> set (containers (db e)). ctr_ok c"
proof (induction rule: reachable.induct)
  case (reach_init e)
  then show ?case by simp
next
  case (reach_create e name image_arg command ports volumes_arg env now rs r e')
  then show ?case by (blast intro: create_container_ok [rule_format])
next
  case (reach_start e name_or_id pid now ok e')
  then show ?case by (blast intro: start_container_ok [rule_format])
next
  case (reach_stop e name_or_id ok e')
  then show ?case by (blast intro: stop_container_ok [rule_format])
qed

subsection \<open>Full reset, by case\<close>

lemma cmd_dbclean_confirmed:
  "strip typed = ''DELETE EVERYTHING'' \<Longrightarrow>
   cmd_dbclean s typed = (Some (map (\<lambda>t. (t, rowcount t s)) dbclean_tables), empty_store)"
  by (simp add: cmd_dbclean_def dbclean_tables_def empty_store_def)

lemma cmd_dbclean_cancelled:
  "strip typed \<noteq> ''DELETE EVERYTHING'' \<Longrightarrow> cmd_dbclean s typed = (None, s)"
  by (simp add: cmd_dbclean_def)

lemma rowcount_empty_store: "rowcount t empty_store = 0"
  by (cases t) (simp_all add: empty_store_def)

subsection \<open>Replaying a dump into a file\<close>

lemma replay_packages:
  "df_readable g \<Longrightarrow> Packages \<in> df_tables g \<Longrightarrow> distinct (map pkg_name xs) \<Longrightarrow>
   pkg_name ` set (packages (df_rows g)) \<inter> pkg_name ` set xs = {} \<Longrightarrow>
   fold replay_line (map (InsertInto \<circ> PackageRow) xs) g =
     g\<lparr>df_rows := (df_rows g)\<lparr>packages := packages (df_rows g) @ xs\<rparr>\<rparr>"
  by (induction xs arbitrary: g) (auto simp: replay_line_def)

lemma replay_dependencies:
  "df_readable g \<Longrightarrow> Dependencies \<in> df_tables g \<Longrightarrow> distinct xs \<Longrightarrow>
   set (dependencies (df_rows g)) \<inter> set xs = {} \<Longrightarrow>
   fold replay_line (map (InsertInto \<circ> DependencyRow) xs) g =
     g\<lparr>df_rows := (df_rows g)\<lparr>dependencies := dependencies (df_rows g) @ xs\<rparr>\<rparr>"
  by (induction xs arbitrary: g) (auto simp: replay_line_def)

lemma replay_metadata:
  "df_readable g \<Longrightarrow> Metadata \<in> df_tables g \<Longrightarrow> distinct (map fst xs) \<Longrightarrow>
   fst ` set (metadata (df_rows g)) \<inter> fst ` set xs = {} \<Longrightarrow>
   fold replay_line (map (InsertInto \<circ> MetadataRow) xs) g =
     g\<lparr>df_rows := (df_rows g)\<lparr>metadata := metadata (df_rows g) @ xs\<rparr>\<rparr>"
  by (induction xs arbitrary: g) (auto simp: replay_line_def)

lemma replay_hidden_files:
  "df_readable g \<Longrightarrow> HiddenFiles \<in> df_tables g \<Longrightarrow> distinct (map hf_path xs) \<Longrightarrow>
   hf_path ` set (hidden_files (df_rows g)) \<inter> hf_path ` set xs = {} \<Longrightarrow>
   fold replay_line (map (InsertInto \<circ> HiddenFileRow) xs) g =
     g\<lparr>df_rows := (df_rows g)\<lparr>hidden_files := hidden_files (df_rows g) @ xs\<rparr>\<rparr>"
  by (induction xs arbitrary: g) (auto simp: replay_line_def)

lemma replay_images:
  "df_readable g \<Longrightarrow> Images \<in> df_tables g \<Longrightarrow> distinct (map img_id xs) \<Longrightarrow>
   img_id ` set (images (df_rows g)) \<inter> img_id ` set xs = {} \<Longrightarrow>
   fold replay_line (map (InsertInto \<circ> ImageRow) xs) g =
     g\<lparr>df_rows := (df_rows g)\<lparr>images := images (df_rows g) @ xs\<rparr>\<rparr>"
  by (induction xs arbitrary: g) (auto simp: replay_line_def)

lemma replay_containers:
  "df_readable g \<Longrightarrow> Containers \<in> df_tables g \<Longrightarrow> distinct (map ctr_id xs) \<Longrightarrow>
   distinct (map ctr_name xs) \<Longrightarrow>
   ctr_id ` set (containers (df_rows g)) \<inter> ctr_id ` set xs = {} \<Longrightarrow>
   ctr_name ` set (containers (df_rows g)) \<inter> ctr_name ` set xs = {} \<Longrightarrow>
   fold replay_line (map (InsertInto \<circ> ContainerRow) xs) g =
     g\<lparr>df_rows := (df_rows g)\<lparr>containers := containers (df_rows g) @ xs\<rparr>\<rparr>"
  by (induction xs arbitrary: g) (auto simp: replay_line_def)

lemma replay_volumes:
  "df_readable g \<Longrightarrow> Volumes \<in> df_tables g \<Longrightarrow> distinct (map vol_name xs) \<Longrightarrow>
   vol_name ` set (volumes (df_rows g)) \<inter> vol_name ` set xs = {} \<Longrightarrow>
   fold replay_line (map (InsertInto \<circ> VolumeRow) xs) g =
     g\<lparr>df_rows := (df_rows g)\<lparr>volumes := volumes (df_rows g) @ xs\<rparr>\<rparr>"
  by (induction xs arbitrary: g) (auto simp: replay_line_def)

text \<open>
  The rows of one table, replayed after its \<open>CREATE TABLE\<close> into a readable file that
  does not have the table yet, arrive as they are.
\<close>

lemma replay_table_rows:
  assumes "df_readable g" and "t \<in> df_tables g" and "table_rows t (df_rows g) = []"
    and "keys_unique s"
  shows "fold replay_line (map InsertInto (table_rows t s)) g =
     g\<lparr>df_rows := copy_table t s (df_rows g)\<rparr>"
proof (cases t)
  case Packages
  with assms show ?thesis
    using replay_packages [of g "packages s"] by (simp add: keys_unique_def)
next
  case Dependencies
  with assms show ?thesis
    using replay_dependencies [of g "dependencies s"] by (simp add: keys_unique_def)
next
  case Metadata
  with assms show ?thesis
    using replay_metadata [of g "metadata s"] by (simp add: keys_unique_def)
next
  case HiddenFiles
  with assms show ?thesis
    using replay_hidden_files [of g "hidden_files s"] by (simp add: keys_unique_def)
next
  case Images
  with assms show ?thesis
    using replay_images [of g "images s"] by (simp add: keys_unique_def)
next
  case Containers
  with assms show ?thesis
    using replay_containers [of g "containers s"] by (simp add: keys_unique_def)
next
  case Volumes
  with assms show ?thesis
    using replay_volumes [of g "volumes s"] by (simp add: keys_unique_def)
qed

lemma table_rows_copy_other:
  "t' \<noteq> t \<Longrightarrow> table_rows t' (copy_table t s r) = table_rows t' r"
  by (cases t; cases t') simp_all

lemma copy_table_empty:
  "table_rows t s = [] \<Longrightarrow> table_rows t r = [] \<Longrightarrow> copy_table t s r = r"
  by (cases t) simp_all

lemma well_formed_absent:
  "well_formed f \<Longrightarrow> t \<notin> df_tables f \<Longrightarrow> table_rows t (df_rows f) = []"
  by (cases t) (auto simp: well_formed_def tables_by_name_def)

text \<open>A row without a NUL character in its \<open>TEXT\<close> values is dumped as it is.\<close>

lemma cut_nul_id: "CHR 0x00 \<notin> set text \<Longrightarrow> cut_nul text = text"
  by (auto simp: cut_nul_def takeWhile_eq_all_conv)

lemma dumped_row_id:
  "list_all (\<lambda>text. CHR 0x00 \<notin> set text) (text_values r) \<Longrightarrow> dumped_row r = r"
  by (cases r) (auto simp: cut_nul_id split: option.splits)

lemma nul_free_table:
  assumes "nul_free s"
  shows "list_all (\<lambda>r. list_all (\<lambda>text. CHR 0x00 \<notin> set text) (text_values r)) (table_rows t s)"
  using assms unfolding nul_free_def tables_by_name_def by (cases t) simp_all

lemma nul_free_dump:
  assumes "nul_free s"
  shows "map (\<lambda>r. InsertInto (dumped_row r)) (table_rows t s) = map InsertInto (table_rows t s)"
  using nul_free_table [OF assms, of t] by (simp add: list_all_iff dumped_row_id)

lemma replay_dump_table:
  assumes "well_formed f" and "df_readable g" and "t \<notin> df_tables g"
    and "table_rows t (df_rows g) = []" and "nul_free (df_rows f)"
  shows "fold replay_line (dump_table f t) g =
     g\<lparr>df_tables := df_tables g \<union> (df_tables f \<inter> {t}),
       df_rows := copy_table t (df_rows f) (df_rows g)\<rparr>"
proof (cases "t \<in> df_tables f")
  case True
  let ?g = "g\<lparr>df_tables := insert t (df_tables g)\<rparr>"
  from assms have create: "replay_line (CreateTable t) g = ?g"
    by (simp add: replay_line_def)
  from assms have "fold replay_line (map InsertInto (table_rows t (df_rows f))) ?g =
      ?g\<lparr>df_rows := copy_table t (df_rows f) (df_rows ?g)\<rparr>"
    by (intro replay_table_rows) (simp_all add: well_formed_def)
  with True create assms(5) show ?thesis by (simp add: dump_table_def nul_free_dump)
next
  case False
  with assms have "copy_table t (df_rows f) (df_rows g) = df_rows g"
    by (simp add: copy_table_empty well_formed_absent)
  with False show ?thesis by (simp add: dump_table_def)
qed

lemma replay_dump_tables:
  assumes "well_formed f" and "nul_free (df_rows f)"
  shows "df_readable g \<Longrightarrow> distinct ts \<Longrightarrow>
     (\<forall>t \<in> set ts. t \<notin> df_tables g \<and> table_rows t (df_rows g) = []) \<Longrightarrow>
     fold replay_line (concat (map (dump_table f) ts)) g =
       g\<lparr>df_tables := df_tables g \<union> (df_tables f \<inter> set ts),
         df_rows := fold (\<lambda>t. copy_table t (df_rows f)) ts (df_rows g)\<rparr>"
proof (induction ts arbitrary: g)
  case Nil
  then show ?case by simp
next
  case (Cons t ts)
  let ?g = "g\<lparr>df_tables := df_tables g \<union> (df_tables f \<inter> {t}),
       df_rows := copy_table t (df_rows f) (df_rows g)\<rparr>"
  from Cons.prems assms have one: "fold replay_line (dump_table f t) g = ?g"
    by (intro replay_dump_table) simp_all
  have fresh: "\<forall>t' \<in> set ts. t' \<notin> df_tables ?g \<and> table_rows t' (df_rows ?g) = []"
  proof
    fix t' assume "t' \<in> set ts"
    with Cons.prems have "t' \<noteq> t" "t' \<notin> df_tables g" "table_rows t' (df_rows g) = []"
      by auto
    then show "t' \<notin> df_tables ?g \<and> table_rows t' (df_rows ?g) = []"
      by (simp add: table_rows_copy_other)
  qed
  from Cons.prems fresh
  have rest: "fold replay_line (concat (map (dump_table f) ts)) ?g =
       ?g\<lparr>df_tables := df_tables ?g \<union> (df_tables f \<inter> set ts),
         df_rows := fold (\<lambda>t. copy_table t (df_rows f)) ts (df_rows ?g)\<rparr>"
    by (intro Cons.IH) simp_all
  have "df_tables g \<union> (df_tables f \<inter> {t}) \<union> (df_tables f \<inter> set ts) =
      df_tables g \<union> (df_tables f \<inter> set (t # ts))"
    by auto
  with one rest show ?case by simp
qed

text \<open>
  The whole dump of a readable, well-formed file without NUL characters in its \<open>TEXT\<close>
  values, replayed into a new file, gives the tables and the rows of the file.
\<close>

lemma replay_iterdump:
  assumes "well_formed f" and "df_readable f" and "nul_free (df_rows f)"
  shows "\<exists>lines. iterdump f = Some lines \<and> fold replay_line lines new_dbfile = f"
proof -
  have univ: "set tables_by_name = UNIV"
  proof -
    have "t \<in> set tables_by_name" for t
      by (cases t) (simp_all add: tables_by_name_def)
    then show ?thesis by auto
  qed
  have "fold replay_line (concat (map (dump_table f) tables_by_name)) new_dbfile =
       new_dbfile\<lparr>df_tables := df_tables new_dbfile \<union> (df_tables f \<inter> set tables_by_name),
         df_rows := fold (\<lambda>t. copy_table t (df_rows f)) tables_by_name (df_rows new_dbfile)\<rparr>"
    using assms(1,3)
  proof (rule replay_dump_tables)
    show "df_readable new_dbfile" by (simp add: new_dbfile_def)
    show "distinct tables_by_name" by (simp add: tables_by_name_def)
    show "\<forall>t \<in> set tables_by_name.
        t \<notin> df_tables new_dbfile \<and> table_rows t (df_rows new_dbfile) = []"
      by (simp add: tables_by_name_def new_dbfile_def empty_store_def)
  qed
  moreover have "fold (\<lambda>t. copy_table t (df_rows f)) tables_by_name (df_rows new_dbfile)
      = df_rows f"
    by (simp add: tables_by_name_def new_dbfile_def empty_store_def)
  ultimately have "fold replay_line (concat (map (dump_table f) tables_by_name)) new_dbfile = f"
    using assms(2) by (simp add: univ new_dbfile_def)
  then show ?thesis
    using assms(2) by (simp add: iterdump_def replay_line_def)
qed

lemma map_of_dict_set: "map_of (dict_set k v kvs) k = Some v"
  by (induction kvs) auto

subsection \<open>The example databases, dumped and replayed\<close>

lemma pkg_name_pkg: "pkg_name (pkg name auto) = name"
  by (simp add: pkg_def)

lemma kernel_db_dump: "iterdump kernel_db = Some kernel_db_lines"
  by (simp add: iterdump_def dump_table_def tables_by_name_def kernel_db_def all_tables_def
      empty_store_def kernel_db_lines_def cut_nul_def pkg_def ctr_def alpine_def)

lemma replay_over_leftover: "fold replay_line kernel_db_lines leftover_temp = merged_db"
  by (auto simp add: kernel_db_lines_def merged_db_def replay_line_def leftover_temp_def
      empty_store_def pkg_name_pkg all_tables_def)

lemma repair_fs_leftover:
  "repair fs_leftover 1700000000 =
     (True, \<lparr>db_file = Some merged_db, temp_file = None,
              backup_files = [(1700000000, kernel_db)]\<rparr>)"
proof -
  have "init_database merged_db = merged_db"
    by (auto simp: init_database_def merged_db_def all_tables_def)
  then show ?thesis
    by (simp add: repair_def fs_leftover_def connect_def kernel_db_dump replay_over_leftover)
qed

text \<open>
  The names \<open>a\<close> and \<open>a\<close>, NUL, \<open>b\<close> are two keys in the file and one key in its dump: the
  second \<open>INSERT\<close> breaks the key, is skipped, and \<open>repair\<close> returns \<open>True\<close> with one
  package left of two.
\<close>

lemma nul_db_well_formed: "well_formed nul_db"
  by (simp add: well_formed_def keys_unique_def nul_db_def all_tables_def tables_by_name_def
      empty_store_def pkg_name_pkg)

lemma nul_db_dump:
  "iterdump nul_db = Some
     [BeginTransaction, CreateTable Containers, CreateTable Dependencies,
      CreateTable HiddenFiles, CreateTable Images, CreateTable Metadata,
      CreateTable Packages,
      InsertInto (PackageRow (pkg ''a'' 0)),
      InsertInto (PackageRow ((pkg ''a'' 0)\<lparr>pkg_filename := ''a''\<rparr>)),
      CreateTable Volumes, CommitTransaction]"
  by (simp add: iterdump_def dump_table_def tables_by_name_def nul_db_def all_tables_def
      empty_store_def cut_nul_def pkg_def)

lemma repair_fs_nul:
  "repair fs_nul 1700000000 =
     (True, \<lparr>db_file = Some nul_db_repaired, temp_file = None,
              backup_files = [(1700000000, nul_db)]\<rparr>)"
proof -
  have "fold replay_line
     [BeginTransaction, CreateTable Containers, CreateTable Dependencies,
      CreateTable HiddenFiles, CreateTable Images, CreateTable Metadata,
      CreateTable Packages,
      InsertInto (PackageRow (pkg ''a'' 0)),
      InsertInto (PackageRow ((pkg ''a'' 0)\<lparr>pkg_filename := ''a''\<rparr>)),
      CreateTable Volumes, CommitTransaction] new_dbfile = nul_db_repaired"
    by (auto simp add: nul_db_repaired_def replay_line_def new_dbfile_def empty_store_def
        pkg_name_pkg all_tables_def)
  moreover have "init_database nul_db_repaired = nul_db_repaired"
    by (auto simp: init_database_def nul_db_repaired_def all_tables_def)
  ultimately show ?thesis
    by (simp add: repair_def fs_nul_def connect_def nul_db_dump del: fold_simps)
qed

lemma repair_fs_nul_rows:
  "map_option (\<lambda>f. rowcount Packages (df_rows f)) (db_file fs_nul) = Some 2 \<and>
   map_option (\<lambda>f. rowcount Packages (df_rows f)) (db_file (snd (repair fs_nul 1700000000)))
     = Some 1"
  by (simp add: repair_fs_nul) (simp add: fs_nul_def nul_db_def nul_db_repaired_def empty_store_def)

subsection \<open>A key that names two containers\<close>

text \<open>
  In \<open>engine_shadowed\<close> the key \<open>ctr_a1b2c3d4e5f6\<close> is the id of \<open>web\<close> and the name of the
  container made after it. The lookup gives the container of that name, and
  \<open>stop_container\<close> stops that one and leaves \<open>web\<close> as it is.
\<close>

lemma create_shadowed:
  "create_container engine_web ''ctr_a1b2c3d4e5f6'' ''alpine'' ''/bin/sh'' None None None 30
     [''0z9y8x7w6v5u''] = Some (Inr ''ctr_0z9y8x7w6v5u'', engine_shadowed)"
  by (simp add: create_container_def empty_store_def engine_shadowed_def engine_web_def
      alpine_def ctr_def generate_id_def str_nat.simps)

lemma find_container_name_first:
  "find_container (db engine_shadowed) ''ctr_a1b2c3d4e5f6'' =
     Some (ctr ''ctr_0z9y8x7w6v5u'' ''ctr_a1b2c3d4e5f6'' 30 ''172.17.0.2'')"
  by (simp add: find_container_def engine_shadowed_def empty_store_def ctr_def)

lemma start_container_name_first:
  "map (\<lambda>c. (ctr_name c, ctr_status c))
     (containers (db (snd (start_container engine_shadowed ''ctr_a1b2c3d4e5f6'' 5555 50)))) =
     [(''web'', ''created''), (''ctr_a1b2c3d4e5f6'', ''running'')]"
  by (simp add: start_container_def find_container_def engine_shadowed_def empty_store_def
      ctr_def)

lemma stop_container_name_first:
  "map (\<lambda>c. (ctr_name c, ctr_status c))
     (containers (db (snd (stop_container engine_shadowed ''ctr_a1b2c3d4e5f6'')))) =
     [(''web'', ''created''), (''ctr_a1b2c3d4e5f6'', ''stopped'')]"
  by (simp add: stop_container_def find_container_def engine_shadowed_def empty_store_def
      ctr_def)

subsection \<open>Repair without a leftover temporary file\<close>

text \<open>
  What \<open>repair\<close> does when nothing stands in its way: for a database file with unique
  keys and no NUL character in a \<open>TEXT\<close> value, and with no file at the temporary path,
  it returns \<open>True\<close>, has copied the file to the backup named by the whole seconds of
  the clock, and leaves no temporary file. If the file can be read, the database has
  the same rows in every table, and the tables it had together with the four of
  \<open>_init_database\<close>. If the file cannot be read, the database is a new one with the four
  tables of \<open>_init_database\<close> and no rows.
\<close>

lemma repair_without_leftover:
  assumes "db_file fs = Some f" and "temp_file fs = None" and "well_formed f"
    and "nul_free (df_rows f)"
  shows "fst (repair fs now) = True \<and>
     map_of (backup_files (snd (repair fs now))) \<lfloor>now\<rfloor> = Some f \<and>
     temp_file (snd (repair fs now)) = None \<and>
     (df_readable f \<longrightarrow>
        db_file (snd (repair fs now)) =
          Some (f\<lparr>df_tables := df_tables f \<union> {Packages, Dependencies, Metadata, HiddenFiles}\<rparr>) \<and>
        (\<forall>t. map_option (\<lambda>f'. rowcount t (df_rows f')) (db_file (snd (repair fs now))) =
           Some (rowcount t (df_rows f)))) \<and>
     (\<not> df_readable f \<longrightarrow>
        db_file (snd (repair fs now)) =
          Some \<lparr>df_tables = {Packages, Dependencies, Metadata, HiddenFiles},
                df_rows = empty_store, df_readable = True\<rparr> \<and>
        (\<forall>t. map_option (\<lambda>f'. rowcount t (df_rows f')) (db_file (snd (repair fs now))) =
           Some 0))"
proof (cases "df_readable f")
  case True
  with assms(3,4) obtain lines where
    lines: "iterdump f = Some lines" "fold replay_line lines new_dbfile = f"
    using replay_iterdump by blast
  with assms(1,2) True show ?thesis
    by (simp add: repair_def connect_def init_database_def map_of_dict_set)
next
  case False
  then have "iterdump f = None" by (simp add: iterdump_def)
  with assms(1,2) False show ?thesis
    by (simp add: repair_def connect_def init_database_def map_of_dict_set new_dbfile_def
        rowcount_empty_store)
qed

lemma kernel_db_well_formed: "well_formed kernel_db \<and> nul_free (df_rows kernel_db)"
  by (simp add: well_formed_def keys_unique_def nul_free_def kernel_db_def all_tables_def
      tables_by_name_def empty_store_def pkg_def ctr_def alpine_def)

lemma repair_without_leftover_examples:
  "db_file (snd (repair fs_healthy 1700000000)) = Some kernel_db \<and>
   map_of (backup_files (snd (repair fs_healthy 1700000000))) 1700000000 = Some kernel_db \<and>
   db_file (snd (repair fs_damaged 1700000000)) =
     Some \<lparr>df_tables = {Packages, Dependencies, Metadata, HiddenFiles},
           df_rows = empty_store, df_readable = True\<rparr> \<and>
   map_of (backup_files (snd (repair fs_damaged 1700000000))) 1700000000 =
     Some (kernel_db\<lparr>df_readable := False\<rparr>)"
proof -
  have wf: "well_formed kernel_db" and nf: "nul_free (df_rows kernel_db)"
    using kernel_db_well_formed by simp_all
  have wf': "well_formed (kernel_db\<lparr>df_readable := False\<rparr>)"
    using wf by (simp add: well_formed_def)
  have nf': "nul_free (df_rows (kernel_db\<lparr>df_readable := False\<rparr>))"
    using nf by simp
  have tables: "df_tables kernel_db \<union> {Packages, Dependencies, Metadata, HiddenFiles} =
      df_tables kernel_db"
    by (auto simp: kernel_db_def all_tables_def)
  have healthy: "db_file fs_healthy = Some kernel_db" "temp_file fs_healthy = None"
    by (simp_all add: fs_healthy_def)
  have damaged: "db_file fs_damaged = Some (kernel_db\<lparr>df_readable := False\<rparr>)"
      "temp_file fs_damaged = None"
    by (simp_all add: fs_damaged_def)
  have readable: "df_readable kernel_db" by (simp add: kernel_db_def)
  from repair_without_leftover [OF healthy wf nf, of 1700000000]
    repair_without_leftover [OF damaged wf' nf', of 1700000000] readable tables
  show ?thesis by simp
qed

section \<open>The claims\<close>

text \<open>
  C1. Creating N containers in sequence should give N strictly increasing, pairwise
  distinct addresses, the first being 172.17.0.2. The code does not: on a new engine
  with an image, \<open>create_container('web', 'alpine')\<close> followed by
  \<open>create_container('api', 'alpine')\<close> gives both containers the address 172.17.0.2,
  because the address is made from the number of entries of the network dictionary,
  which only \<open>start_container\<close> fills.
\<close>

theorem create_container_twice_same_ip:
  "create_container engine_alpine ''web'' ''alpine'' ''/bin/sh'' None None None 20
     [''a1b2c3d4e5f6''] = Some (Inr ''ctr_a1b2c3d4e5f6'', engine_web) \<and>
   create_container engine_web ''api'' ''alpine'' ''/bin/sh'' None None None 30
     [''0z9y8x7w6v5u''] = Some (Inr ''ctr_0z9y8x7w6v5u'', engine_web_api) \<and>
   map ctr_ip_address (containers (db engine_web_api)) = [''172.17.0.2'', ''172.17.0.2'']"
  by (simp add: create_web create_api) (simp add: engine_web_api_def empty_store_def ctr_def)

text \<open>
  C2, as the specification has it: a write keeps the created-time of a path that
  already has a row. It does not: the file \<open>/etc/motd\<close> of the example was created at
  time 100, and after a write at time 200 its created-time is 200.
\<close>

theorem write_hidden_file_created_time_counterexample:
  "map_option hf_created_time (hidden_file_row blobs_example ''/etc/motd'') = Some 100 \<and>
   map_option hf_created_time
     (hidden_file_row (snd (write_hidden_file blobs_example ''/etc/motd'' [98, 121, 101] 200 200))
        ''/etc/motd'') \<noteq>
   map_option hf_created_time (hidden_file_row blobs_example ''/etc/motd'')"
  by (simp add: hidden_file_row_def blobs_example_def empty_store_def motd_def
      write_hidden_file_def)

text \<open>
  C2, amended: for every path and content, \<open>write_hidden_file\<close> succeeds and leaves for
  that path exactly one new row, with the content, its length as size, the default
  permissions, and both the created-time and the modified-time set to the clock readings
  of this write, whether or not the path had a row before; the rows of all other paths
  are as they were.
\<close>

theorem write_hidden_file_replaces_row:
  "fst (write_hidden_file s path content t1 t2) = True \<and>
   hidden_file_row (snd (write_hidden_file s path content t1 t2)) path =
     Some \<lparr>hf_path = path, hf_content = content, hf_size = int (length content),
        hf_created_time = t1, hf_modified_time = t2, hf_permissions = ''rw-r--r--''\<rparr> \<and>
   length (filter (\<lambda>f. hf_path f = path)
     (hidden_files (snd (write_hidden_file s path content t1 t2)))) = 1 \<and>
   (\<forall>p. p \<noteq> path \<longrightarrow>
      hidden_file_row (snd (write_hidden_file s path content t1 t2)) p = hidden_file_row s p)"
  by (auto simp: write_hidden_file_def hidden_file_row_def find_replaced_key find_other_key)

theorem write_hidden_file_replaces_row_witness:
  "''/etc/motd'' \<noteq> ''/tmp/x'' \<and>
   hidden_file_row (snd (write_hidden_file blobs_example ''/tmp/x'' [1, 2, 3] 200 201))
     ''/etc/motd'' = Some motd \<and>
   hidden_file_row (snd (write_hidden_file blobs_example ''/tmp/x'' [1, 2, 3] 200 201))
     ''/tmp/x'' = Some \<lparr>hf_path = ''/tmp/x'', hf_content = [1, 2, 3], hf_size = 3,
        hf_created_time = 200, hf_modified_time = 201, hf_permissions = ''rw-r--r--''\<rparr>"
proof -
  have ne: "''/etc/motd'' \<noteq> ''/tmp/x''" by simp
  have old: "hidden_file_row blobs_example ''/etc/motd'' = Some motd"
    by (simp add: hidden_file_row_def blobs_example_def empty_store_def motd_def)
  from write_hidden_file_replaces_row [of blobs_example "''/tmp/x''" "[1, 2, 3]" 200 201] ne old
  show ?thesis by simp
qed

text \<open>
  C3. \<open>get_orphaned_packages\<close> returns exactly \<open>A - N\<close>: an automatically installed
  package that a manually installed package depends on directly is not returned, and
  one that no manually installed package depends on directly is returned, whatever
  depends on it otherwise. With unique package names the list has no duplicates.
\<close>

theorem get_orphaned_packages_single_level:
  "set (get_orphaned_packages s) = spec_A s - spec_N s \<and>
   (\<forall>m d. m \<in> spec_M s \<and> (m, d) \<in> set (dependencies s) \<longrightarrow>
      d \<notin> set (get_orphaned_packages s)) \<and>
   (\<forall>x. x \<in> spec_A s \<and> (\<forall>m \<in> spec_M s. (m, x) \<notin> set (dependencies s)) \<longrightarrow>
      x \<in> set (get_orphaned_packages s)) \<and>
   (distinct (map pkg_name (packages s)) \<longrightarrow> distinct (get_orphaned_packages s))"
  unfolding get_orphaned_packages_set
  by (force simp: spec_N_def get_orphaned_packages_distinct)

theorem get_orphaned_packages_single_level_witness:
  "''app'' \<in> spec_M registry_example \<and>
   (''app'', ''libfoo'') \<in> set (dependencies registry_example) \<and>
   ''libfoo'' \<notin> set (get_orphaned_packages registry_example) \<and>
   ''libbar'' \<in> spec_A registry_example \<and>
   spec_M registry_example = {''app''} \<and>
   (''app'', ''libbar'') \<notin> set (dependencies registry_example) \<and>
   (''libfoo'', ''libbar'') \<in> set (dependencies registry_example) \<and>
   ''libbar'' \<in> set (get_orphaned_packages registry_example) \<and>
   distinct (map pkg_name (packages registry_example)) \<and>
   distinct (get_orphaned_packages registry_example)"
proof -
  have deps: "dependencies registry_example = [(''app'', ''libfoo''), (''libfoo'', ''libbar'')]"
    by (simp add: registry_example_def empty_store_def)
  have names: "map pkg_name (packages registry_example) =
      [''app'', ''libfoo'', ''libbar'', ''libbaz'']"
    by (simp add: registry_example_def empty_store_def pkg_def)
  have hyp1: "''app'' \<in> spec_M registry_example \<and>
      (''app'', ''libfoo'') \<in> set (dependencies registry_example)"
    by (simp add: registry_example_M deps)
  have hyp2: "''libbar'' \<in> spec_A registry_example \<and>
      (\<forall>m \<in> spec_M registry_example. (m, ''libbar'') \<notin> set (dependencies registry_example))"
    by (simp add: registry_example_M registry_example_A deps)
  have hyp3: "distinct (map pkg_name (packages registry_example))"
    by (simp add: names)
  note inst = get_orphaned_packages_single_level [of registry_example]
  from inst hyp1 have 1: "''libfoo'' \<notin> set (get_orphaned_packages registry_example)"
    by blast
  from inst hyp2 have 2: "''libbar'' \<in> set (get_orphaned_packages registry_example)"
    by blast
  from inst hyp3 have 3: "distinct (get_orphaned_packages registry_example)"
    by blast
  from 1 2 3 hyp1 hyp3 show ?thesis
    by (simp add: registry_example_M registry_example_A deps)
qed

text \<open>
  C4. \<open>repair\<close> should end with the row counts it started from, or with zero rows and
  a backup, and never in between. The code does not. Under the comment
  \<open># Create new database\<close> it opens with \<open>sqlite3.connect\<close> the file at the temporary
  path, which is new only when no file is there, and it skips every replayed statement
  that fails. With the temporary file of an interrupted run in place, holding a
  \<open>packages\<close> table with the package \<open>libold\<close>, a readable database with the one
  package \<open>app\<close> comes out with the two packages \<open>libold\<close> and \<open>app\<close>, neither the
  count before nor zero, and \<open>repair\<close> returns \<open>True\<close>.
\<close>

theorem repair_leftover_temp_mixes_rows:
  "db_file fs_leftover = Some kernel_db \<and>
   temp_file fs_leftover = Some leftover_temp \<and>
   map pkg_name (packages (df_rows kernel_db)) = [''app''] \<and>
   fst (repair fs_leftover 1700000000) = True \<and>
   map_option (\<lambda>f. map pkg_name (packages (df_rows f)))
     (db_file (snd (repair fs_leftover 1700000000))) = Some [''libold'', ''app''] \<and>
   map_option (\<lambda>f. rowcount Packages (df_rows f))
     (db_file (snd (repair fs_leftover 1700000000))) \<noteq>
     Some (rowcount Packages (df_rows kernel_db)) \<and>
   map_option (\<lambda>f. rowcount Packages (df_rows f))
     (db_file (snd (repair fs_leftover 1700000000))) \<noteq> Some 0"
proof -
  have before: "map pkg_name (packages (df_rows kernel_db)) = [''app'']"
    by (simp add: kernel_db_def empty_store_def pkg_name_pkg)
  have after: "map pkg_name (packages (df_rows merged_db)) = [''libold'', ''app'']"
    by (simp add: merged_db_def empty_store_def pkg_name_pkg)
  have "length (packages (df_rows kernel_db)) = 1" "length (packages (df_rows merged_db)) = 2"
    by (simp_all add: kernel_db_def merged_db_def empty_store_def)
  with before after show ?thesis
    by (simp add: repair_fs_leftover) (simp add: fs_leftover_def)
qed

text \<open>
  C5. When a key resolves to a container (the one of that name, or else the one of
  that id), \<open>start_container\<close> succeeds and leaves that
  container \<open>running\<close> with a process id (in particular when it was \<open>created\<close>); after
  it, \<open>remove_container\<close> without force fails and changes nothing, and with force it
  succeeds and no row with the container's id is in \<open>list_containers(all)\<close>. In any
  state, \<open>remove_container\<close> on a key that resolves fails exactly when the container is
  \<open>running\<close> and force is false.
\<close>

theorem start_then_remove:
  assumes "find_container (db e) key = Some c"
  shows "let e1 = snd (start_container e key pid now);
             e2 = snd (remove_container e1 key True)
         in fst (start_container e key pid now) = True \<and>
            find_container (db e1) key =
              Some (c\<lparr>ctr_status := ''running'', ctr_started_time := Some now,
                      ctr_pid := Some pid\<rparr>) \<and>
            remove_container e1 key False = (False, e1) \<and>
            fst (remove_container e1 key True) = True \<and>
            ctr_id c \<notin> ctr_id ` set (list_containers e2 True) \<and>
            (fst (remove_container e key force) = False) =
              (ctr_status c = ''running'' \<and> \<not> force)"
proof -
  let ?e1 = "snd (start_container e key pid now)"
  have 1: "fst (start_container e key pid now) = True"
    using assms by (simp add: start_container_def)
  have 2: "find_container (db ?e1) key =
      Some (c\<lparr>ctr_status := ''running'', ctr_started_time := Some now, ctr_pid := Some pid\<rparr>)"
    using assms by (rule find_container_start)
  have 3: "remove_container ?e1 key False = (False, ?e1)"
    by (simp add: remove_container_def 2)
  have 4: "fst (remove_container ?e1 key True) = True"
    by (simp add: remove_container_def 2)
  have 5: "ctr_id c \<notin> ctr_id ` set (list_containers (snd (remove_container ?e1 key True)) True)"
    by (auto simp: set_list_containers_all remove_container_def 2)
  have 6: "(fst (remove_container e key force) = False) =
      (ctr_status c = ''running'' \<and> \<not> force)"
    using assms by (simp add: remove_container_def)
  from 1 2 3 4 5 6 show ?thesis by (simp add: Let_def)
qed

theorem start_then_remove_witness:
  "find_container (db engine_web) ''web'' =
     Some (ctr ''ctr_a1b2c3d4e5f6'' ''web'' 20 ''172.17.0.2'') \<and>
   ctr_status (ctr ''ctr_a1b2c3d4e5f6'' ''web'' 20 ''172.17.0.2'') = ''created'' \<and>
   start_container engine_web ''web'' 4321 40 = (True, engine_web_running) \<and>
   map_option ctr_status (find_container (db engine_web_running) ''web'') = Some ''running'' \<and>
   map_option ctr_pid (find_container (db engine_web_running) ''web'') = Some (Some 4321) \<and>
   remove_container engine_web_running ''web'' False = (False, engine_web_running) \<and>
   fst (remove_container engine_web_running ''web'' True) = True \<and>
   ''ctr_a1b2c3d4e5f6'' \<notin>
     ctr_id ` set (list_containers (snd (remove_container engine_web_running ''web'' True)) True) \<and>
   fst (remove_container engine_web ''web'' False) = True \<and>
   find_container (db engine_shadowed) ''ctr_a1b2c3d4e5f6'' =
     Some (ctr ''ctr_0z9y8x7w6v5u'' ''ctr_a1b2c3d4e5f6'' 30 ''172.17.0.2'') \<and>
   fst (start_container engine_shadowed ''ctr_a1b2c3d4e5f6'' 5555 50) = True \<and>
   map (\<lambda>c. (ctr_name c, ctr_status c))
     (containers (db (snd (start_container engine_shadowed ''ctr_a1b2c3d4e5f6'' 5555 50)))) =
     [(''web'', ''created''), (''ctr_a1b2c3d4e5f6'', ''running'')]"
proof -
  have cid: "ctr_id (ctr ''ctr_a1b2c3d4e5f6'' ''web'' 20 ''172.17.0.2'') = ''ctr_a1b2c3d4e5f6''"
    and st: "ctr_status (ctr ''ctr_a1b2c3d4e5f6'' ''web'' 20 ''172.17.0.2'') = ''created''"
    by (simp_all add: ctr_def)
  from start_then_remove [OF find_web, of 4321 40 False]
    start_then_remove [OF find_container_name_first, of 5555 50 False]
    find_web find_container_name_first start_container_name_first
  show ?thesis
    by (simp add: Let_def start_web cid st)
qed

text \<open>
  C6. When a container with the name exists, \<open>create_container\<close> with that name fails
  and returns the engine as it was, whatever the other arguments: with the message of
  the taken name when the image resolves, and with that of the missing image
  otherwise.
\<close>

theorem create_container_name_taken:
  assumes "\<exists>c \<in> set (containers (db e)). ctr_name c = name"
  shows "create_container e name image_arg command ports volumes_arg env now rs =
     Some (Inl (case find (\<lambda>i. img_name i = image_arg \<or> img_id i = image_arg)
                       (images (db e)) of
                  None \<Rightarrow> ImageNotFound | Some img \<Rightarrow> NameExists), e)"
proof -
  from assms have "find (\<lambda>c. ctr_name c = name) (containers (db e)) \<noteq> None"
    by (auto simp: find_None_iff)
  then show ?thesis
    by (auto simp: create_container_def split: option.splits)
qed

theorem create_container_name_taken_witness:
  "create_container engine_alpine ''web'' ''alpine'' ''/bin/sh'' None None None 20
     [''a1b2c3d4e5f6''] = Some (Inr ''ctr_a1b2c3d4e5f6'', engine_web) \<and>
   map ctr_name (containers (db engine_web)) = [''web''] \<and>
   create_container engine_web ''web'' ''alpine'' ''/bin/sh'' None None None 30
     [''0z9y8x7w6v5u''] = Some (Inl NameExists, engine_web)"
proof -
  have names: "map ctr_name (containers (db engine_web)) = [''web'']"
    by (simp add: engine_web_def empty_store_def ctr_def)
  have ex: "\<exists>c \<in> set (containers (db engine_web)). ctr_name c = ''web''"
    by (simp add: engine_web_def empty_store_def ctr_def)
  have img: "find (\<lambda>i. img_name i = ''alpine'' \<or> img_id i = ''alpine'') (images (db engine_web))
      = Some alpine"
    by (simp add: engine_web_def empty_store_def alpine_def)
  from create_container_name_taken [OF ex, of "''alpine''" "''/bin/sh''" None None None 30
      "[''0z9y8x7w6v5u'']"] img names create_web
  show ?thesis by simp
qed

text \<open>
  C7. \<open>remove_package\<close> returns \<open>True\<close>; calling it again on the result returns \<open>True\<close> and
  changes nothing; and after it no dependency edge has the name on either side and no
  package row has the name.
\<close>

theorem remove_package_idempotent:
  "fst (remove_package s name) = True \<and>
   remove_package (snd (remove_package s name)) name = (True, snd (remove_package s name)) \<and>
   (\<forall>e \<in> set (dependencies (snd (remove_package s name))). fst e \<noteq> name \<and> snd e \<noteq> name) \<and>
   (\<forall>p \<in> set (packages (snd (remove_package s name))). pkg_name p \<noteq> name)"
  by (auto simp: remove_package_def)

theorem remove_package_idempotent_witness:
  "dependencies registry_example = [(''app'', ''libfoo''), (''libfoo'', ''libbar'')] \<and>
   dependencies (snd (remove_package registry_example ''libfoo'')) = [] \<and>
   map pkg_name (packages (snd (remove_package registry_example ''libfoo''))) =
     [''app'', ''libbar'', ''libbaz''] \<and>
   remove_package (snd (remove_package registry_example ''libfoo'')) ''libfoo'' =
     (True, snd (remove_package registry_example ''libfoo''))"
proof -
  have deps: "dependencies registry_example = [(''app'', ''libfoo''), (''libfoo'', ''libbar'')]"
    by (simp add: registry_example_def empty_store_def)
  have after: "dependencies (snd (remove_package registry_example ''libfoo'')) = []"
    by (simp add: remove_package_def deps)
  have names: "map pkg_name (packages (snd (remove_package registry_example ''libfoo''))) =
     [''app'', ''libbar'', ''libbaz'']"
    by (simp add: remove_package_def registry_example_def empty_store_def pkg_def)
  from remove_package_idempotent [of registry_example "''libfoo''"] deps after names
  show ?thesis by simp
qed

text \<open>
  C8, as the specification has it: without the exact phrase nothing changes. The input
  is stripped before it is compared, so the phrase followed by a space, which is not
  the exact phrase, empties the tables too.
\<close>

theorem cmd_dbclean_padded_phrase_counterexample:
  "''DELETE EVERYTHING '' \<noteq> ''DELETE EVERYTHING'' \<and>
   rowcount Packages registry_example = 4 \<and>
   rowcount Packages (snd (cmd_dbclean registry_example ''DELETE EVERYTHING '')) = 0"
  by (simp add: cmd_dbclean_def strip_def is_space_def dbclean_tables_def
      registry_example_def empty_store_def)

text \<open>
  C8, amended: when the input, with leading and trailing whitespace stripped, is not
  exactly the phrase, \<open>_cmd_dbclean\<close> leaves every table as it is; when it is the phrase,
  every table has zero rows afterwards, and the numbers of deleted rows reported are
  those of the rows each table had.
\<close>

theorem cmd_dbclean_needs_phrase:
  "(strip typed \<noteq> ''DELETE EVERYTHING'' \<longrightarrow> cmd_dbclean s typed = (None, s)) \<and>
   (strip typed = ''DELETE EVERYTHING'' \<longrightarrow>
      fst (cmd_dbclean s typed) = Some (map (\<lambda>t. (t, rowcount t s)) dbclean_tables) \<and>
      snd (cmd_dbclean s typed) = empty_store \<and>
      (\<forall>t. rowcount t (snd (cmd_dbclean s typed)) = 0))"
  by (simp add: cmd_dbclean_confirmed cmd_dbclean_cancelled rowcount_empty_store)

theorem cmd_dbclean_needs_phrase_witness:
  "strip ''yes'' \<noteq> ''DELETE EVERYTHING'' \<and>
   cmd_dbclean registry_example ''yes'' = (None, registry_example) \<and>
   strip ''DELETE EVERYTHING'' = ''DELETE EVERYTHING'' \<and>
   snd (cmd_dbclean registry_example ''DELETE EVERYTHING'') = empty_store \<and>
   rowcount Packages registry_example = 4 \<and>
   rowcount Packages (snd (cmd_dbclean registry_example ''DELETE EVERYTHING'')) = 0"
proof -
  have no: "strip ''yes'' \<noteq> ''DELETE EVERYTHING''"
    by (simp add: strip_def is_space_def)
  have yes: "strip ''DELETE EVERYTHING'' = ''DELETE EVERYTHING''"
    by (simp add: strip_def is_space_def)
  have four: "rowcount Packages registry_example = 4"
    by (simp add: registry_example_def empty_store_def)
  from cmd_dbclean_needs_phrase [of "''yes''" registry_example]
    cmd_dbclean_needs_phrase [of "''DELETE EVERYTHING''" registry_example] no yes four
  show ?thesis by (simp add: rowcount_empty_store)
qed

text \<open>
  C9. In every state that \<open>create_container\<close>, \<open>start_container\<close> and \<open>stop_container\<close>
  reach from an engine without containers, every container row has one of the three
  statuses, and its process id is not null only when it is \<open>running\<close> (and then it
  always is not null).
\<close>

theorem reachable_status_and_pid:
  assumes "reachable e"
  shows "\<forall>c \<in> set (containers (db e)).
           ctr_status c \<in> {''created'', ''running'', ''stopped''} \<and>
           (ctr_pid c \<noteq> None \<longrightarrow> ctr_status c = ''running'') \<and>
           (ctr_status c = ''running'' \<longrightarrow> ctr_pid c \<noteq> None)"
  using reachable_ok [OF assms] by (simp add: ctr_ok_def)

theorem reachable_status_and_pid_witness:
  "reachable engine_web_running \<and>
   map ctr_status (containers (db engine_web_running)) = [''running''] \<and>
   map ctr_pid (containers (db engine_web_running)) = [Some 4321]"
proof -
  have rows: "map ctr_status (containers (db engine_web_running)) = [''running'']"
      "map ctr_pid (containers (db engine_web_running)) = [Some 4321]"
    by (simp_all add: engine_web_running_def empty_store_def ctr_def)
  from reachable_status_and_pid [OF reachable_web_running] rows reachable_web_running
  show ?thesis by simp
qed

text \<open>
  C10. When a key resolves to a container (the one of that name, or else the one of
  that id), whatever its status, and so also when it is
  \<open>created\<close> and was never started, \<open>stop_container\<close> succeeds and leaves every row with
  that container's id \<open>stopped\<close> with a null process id; every other row is one of the
  rows before.
\<close>

theorem stop_container_any_status:
  assumes "find_container (db e) key = Some c"
  shows "fst (stop_container e key) = True \<and>
         find_container (db (snd (stop_container e key))) key =
           Some (c\<lparr>ctr_status := ''stopped'', ctr_pid := None\<rparr>) \<and>
         (\<forall>r \<in> set (containers (db (snd (stop_container e key)))).
            ctr_id r = ctr_id c \<longrightarrow> ctr_status r = ''stopped'' \<and> ctr_pid r = None) \<and>
         (\<forall>r \<in> set (containers (db (snd (stop_container e key)))).
            ctr_id r \<noteq> ctr_id c \<longrightarrow> r \<in> set (containers (db e)))"
proof -
  have "fst (stop_container e key) = True"
    using assms by (simp add: stop_container_def)
  moreover note find_container_stop [OF assms]
  moreover have "\<forall>r \<in> set (containers (db (snd (stop_container e key)))).
            ctr_id r = ctr_id c \<longrightarrow> ctr_status r = ''stopped'' \<and> ctr_pid r = None"
    using assms by (auto simp: stop_container_def)
  moreover have "\<forall>r \<in> set (containers (db (snd (stop_container e key)))).
            ctr_id r \<noteq> ctr_id c \<longrightarrow> r \<in> set (containers (db e))"
    using assms by (auto simp: stop_container_def)
  ultimately show ?thesis by blast
qed

theorem stop_container_any_status_witness:
  "find_container (db engine_web) ''web'' =
     Some (ctr ''ctr_a1b2c3d4e5f6'' ''web'' 20 ''172.17.0.2'') \<and>
   ctr_status (ctr ''ctr_a1b2c3d4e5f6'' ''web'' 20 ''172.17.0.2'') = ''created'' \<and>
   fst (stop_container engine_web ''web'') = True \<and>
   map_option ctr_status (find_container (db (snd (stop_container engine_web ''web''))) ''web'')
     = Some ''stopped'' \<and>
   map_option ctr_pid (find_container (db (snd (stop_container engine_web ''web''))) ''web'')
     = Some None \<and>
   find_container (db engine_shadowed) ''ctr_a1b2c3d4e5f6'' =
     Some (ctr ''ctr_0z9y8x7w6v5u'' ''ctr_a1b2c3d4e5f6'' 30 ''172.17.0.2'') \<and>
   fst (stop_container engine_shadowed ''ctr_a1b2c3d4e5f6'') = True \<and>
   map (\<lambda>c. (ctr_name c, ctr_status c))
     (containers (db (snd (stop_container engine_shadowed ''ctr_a1b2c3d4e5f6'')))) =
     [(''web'', ''created''), (''ctr_a1b2c3d4e5f6'', ''stopped'')]"
proof -
  have st: "ctr_status (ctr ''ctr_a1b2c3d4e5f6'' ''web'' 20 ''172.17.0.2'') = ''created''"
    by (simp add: ctr_def)
  from stop_container_any_status [OF find_web]
    stop_container_any_status [OF find_container_name_first]
    find_web find_container_name_first stop_container_name_first st
  show ?thesis by simp
qed

end
